theory Spec2Isabelle
  imports Complex_Main "HOL-Library.Char_ord" "HOL-Library.List_Lexorder"
begin

section \<open>The model server: examples/rapids-sagemaker-hpo/serve.py\<close>

subsection \<open>Values\<close>

text \<open>
  A Python or numpy float: the finite values are embedded in the reals (comparing two
  floats is exact), the three special values are kept apart.
\<close>

datatype pyfloat = Finite real | PosInf | NegInf | NaN

text \<open>
  A numpy array, seen through the nested lists that \<^verbatim>\<open>tolist()\<close> gives: an item for
  a zero-dimensional array, a list of arrays otherwise.
\<close>

datatype 'a ndarray = Item 'a | Arr "'a ndarray list"

text \<open>
  An exception is kept with its \<^verbatim>\<open>str()\<close>, which \<^verbatim>\<open>predict\<close> formats into a response.
  \<open>Exception\<close> is one that a \<^verbatim>\<open>raise Exception(...)\<close> statement of serve.py raises,
  \<open>LibraryError\<close> one that is raised inside a call of a third-party library.
\<close>

datatype exn = Exception string | LibraryError string

fun str :: "exn \<Rightarrow> string" where
  "str (Exception m) = m"
| "str (LibraryError m) = m"

text \<open>A call into a library: what it raises reaches the script as a \<open>LibraryError\<close>.\<close>

definition lib :: "string + 'a \<Rightarrow> exn + 'a" where
  "lib r = (case r of Inl m \<Rightarrow> Inl (LibraryError m) | Inr v \<Rightarrow> Inr v)"

text \<open>The three values that \<^verbatim>\<open>load_trained_model\<close> gives to \<^verbatim>\<open>model_type\<close>.\<close>

datatype model_type = XGBoost | RandomForest | KMeans

text \<open>What a model's \<^verbatim>\<open>predict\<close> is called on: the query array or an \<^verbatim>\<open>xgboost.DMatrix\<close>.\<close>

datatype ('q, 'd) model_input = Ndarray 'q | DMatrix 'd

subsection \<open>The world outside the script\<close>

text \<open>
  Everything serve.py delegates to: the file system behind \<^verbatim>\<open>glob.glob\<close>, the model
  loaders of cuml, xgboost and joblib, \<^verbatim>\<open>json.loads\<close>, numpy and the loaded model's
  \<^verbatim>\<open>predict\<close>. Each call that can raise returns a sum, \<open>Inl\<close> the \<^verbatim>\<open>str()\<close> of the
  exception it raised. The world is an argument of every step, so that it may differ
  from one call to the next (files appear and disappear). \<open>'m\<close> is a loaded model, \<open>'j\<close> a decoded JSON value,
  \<open>'q\<close> a query array, \<open>'d\<close> a DMatrix.
\<close>

record ('m, 'j, 'q, 'd) world =
  glob :: "string \<Rightarrow> string list"
  ForestInference_load :: "string \<Rightarrow> string + 'm"
  Booster_load_model :: "string \<Rightarrow> string + 'm"
  joblib_load :: "string \<Rightarrow> string + 'm"
  json_loads :: "string \<Rightarrow> string + 'j"
  numpy_array :: "'j \<Rightarrow> string + 'q"
  xgboost_DMatrix :: "'q \<Rightarrow> string + 'd"
  astype_float32 :: "'q \<Rightarrow> string + 'q"
  model_predict :: "'m \<Rightarrow> ('q, 'd) model_input \<Rightarrow> string + pyfloat ndarray"

text \<open>
  The calls to the outside that the claims count, in the order the script makes them:
  a directory scan with its pattern, the deserialisation of a model file, a model's
  \<^verbatim>\<open>predict\<close> (with the file the model came from).
\<close>

datatype event = Glob string | Load string | Predict string

text \<open>
  The state of one serving process: the single entry of the \<^verbatim>\<open>lru_cache\<close> around
  \<^verbatim>\<open>load_trained_model\<close> (a function of no argument), and the calls made so far.
  Logging and timing are left out: they reach no response and no state.
\<close>

record 'm server =
  lru_cache :: "('m \<times> model_type \<times> string) option"
  calls :: "event list"

definition fresh :: "'m server" where
  "fresh = \<lparr>lru_cache = None, calls = []\<rparr>"

subsection \<open>Responses and routes\<close>

datatype body = Text string | Json_dumps "pyfloat ndarray"

record response =
  response :: body
  status :: nat
  mimetype :: "string option"

text \<open>
  What a rule of the application leads to: the two view functions of the script, and the
  sender of static files that Flask brings along.
\<close>

datatype view = Static_view | Ping_view | Predict_view

text \<open>
  A rule of the URL map: its pattern, the methods it answers, whether Flask answers
  OPTIONS on it by itself, and the endpoint.
\<close>

record rule =
  rule_path :: string
  rule_methods :: "string set"
  provide_automatic_options :: bool
  endpoint :: view

record flask =
  url_map :: "rule list"

text \<open>
  \<^verbatim>\<open>add_url_rule\<close>, as Flask and Werkzeug register a rule: OPTIONS is added, to be
  answered by Flask itself, unless the caller lists it, and a rule for GET answers HEAD
  too.
\<close>

definition add_url_rule :: "string \<Rightarrow> string list \<Rightarrow> view \<Rightarrow> flask \<Rightarrow> flask" where
  "add_url_rule p ms v app =
    app\<lparr>url_map := url_map app @
      [\<lparr>rule_path = p,
        rule_methods = set ms \<union> (if ''OPTIONS'' \<in> set ms then {} else {''OPTIONS''}) \<union>
                       (if ''GET'' \<in> set ms then {''HEAD''} else {}),
        provide_automatic_options = (''OPTIONS'' \<notin> set ms),
        endpoint = v\<rparr>]\<rparr>"

text \<open>
  \<^verbatim>\<open>Flask(__name__)\<close>: with the default static folder the constructor registers the
  rule for static files itself.
\<close>

definition Flask :: flask where
  "Flask = add_url_rule ''/static/<path:filename>'' [''GET''] Static_view \<lparr>url_map = []\<rparr>"

text \<open>The decorator \<^verbatim>\<open>@app.route(path, methods=...)\<close> applied to a view function.\<close>

definition route :: "string \<Rightarrow> string list \<Rightarrow> view \<Rightarrow> flask \<Rightarrow> flask" where
  "route p ms v app = add_url_rule p ms v app"

text \<open>The two decorators of \<^verbatim>\<open>serve\<close>, in the order the function body runs them.\<close>

definition serve_app :: flask where
  "serve_app = route ''/invocations'' [''POST''] Predict_view (route ''/ping'' [''GET''] Ping_view Flask)"

record request =
  req_method :: string
  req_path :: string
  get_data :: string

subsection \<open>ping\<close>

definition ping :: response where
  "ping = \<lparr>response = Text [CHR 0x0A], status = 200, mimetype = None\<rparr>"

subsection \<open>load_trained_model\<close>

text \<open>
  The body of \<^verbatim>\<open>load_trained_model\<close>, run on a cache miss: the three scans, then the
  first branch whose list is not empty loads that list's first file. It returns the
  triple or the exception, and the calls it made.
\<close>

definition load_trained_model_body ::
  "bool \<Rightarrow> ('m, 'j, 'q, 'd) world \<Rightarrow> (exn + 'm \<times> model_type \<times> string) \<times> event list" where
  "load_trained_model_body GPU_INFERENCE_FLAG w =
    (let xgb_models = glob w ''/opt/ml/model/*_xgb'';
         rf_models = glob w ''/opt/ml/model/*_rf'';
         kmeans_models = glob w ''/opt/ml/model/*_kmeans'';
         scans = [Glob ''/opt/ml/model/*_xgb'', Glob ''/opt/ml/model/*_rf'',
                  Glob ''/opt/ml/model/*_kmeans'']
     in case xgb_models of
          model_filename # _ \<Rightarrow>
            (case (if GPU_INFERENCE_FLAG then lib (ForestInference_load w model_filename)
                   else lib (Booster_load_model w model_filename)) of
               Inl e \<Rightarrow> (Inl e, scans @ [Load model_filename])
             | Inr reloaded_model \<Rightarrow>
                 (Inr (reloaded_model, XGBoost, model_filename), scans @ [Load model_filename]))
        | [] \<Rightarrow>
            (case rf_models of
               model_filename # _ \<Rightarrow>
                 (case lib (joblib_load w model_filename) of
                    Inl e \<Rightarrow> (Inl e, scans @ [Load model_filename])
                  | Inr reloaded_model \<Rightarrow>
                      (Inr (reloaded_model, RandomForest, model_filename),
                       scans @ [Load model_filename]))
             | [] \<Rightarrow>
                 (case kmeans_models of
                    model_filename # _ \<Rightarrow>
                      (case lib (joblib_load w model_filename) of
                         Inl e \<Rightarrow> (Inl e, scans @ [Load model_filename])
                       | Inr reloaded_model \<Rightarrow>
                           (Inr (reloaded_model, KMeans, model_filename),
                            scans @ [Load model_filename]))
                  | [] \<Rightarrow> (Inl (Exception ''! No trained models detected''), scans))))"

text \<open>
  \<^verbatim>\<open>@lru_cache\<close> on a function of no argument: a hit returns the stored triple and runs
  nothing; a miss runs the body and stores its result, unless the body raises (an
  exception is not cached).
\<close>

definition load_trained_model ::
  "bool \<Rightarrow> ('m, 'j, 'q, 'd) world \<Rightarrow> 'm server \<Rightarrow> (exn + 'm \<times> model_type \<times> string) \<times> 'm server" where
  "load_trained_model GPU_INFERENCE_FLAG w s =
    (case lru_cache s of
       Some t \<Rightarrow> (Inr t, s)
     | None \<Rightarrow>
         (case load_trained_model_body GPU_INFERENCE_FLAG w of
            (Inl e, evs) \<Rightarrow> (Inl e, s\<lparr>calls := calls s @ evs\<rparr>)
          | (Inr t, evs) \<Rightarrow> (Inr t, s\<lparr>lru_cache := Some t, calls := calls s @ evs\<rparr>)))"

subsection \<open>predict\<close>

text \<open>The comparison \<^verbatim>\<open>>\<close> of two floats: false as soon as one is NaN.\<close>

fun fgt :: "pyfloat \<Rightarrow> pyfloat \<Rightarrow> bool" where
  "fgt NaN _ = False"
| "fgt _ NaN = False"
| "fgt (Finite a) (Finite b) = (b < a)"
| "fgt PosInf PosInf = False"
| "fgt PosInf _ = True"
| "fgt NegInf _ = False"
| "fgt (Finite _) NegInf = True"
| "fgt (Finite _) PosInf = False"

text \<open>Rounding to the nearest integer, a tie to the even one.\<close>

definition round_half_even :: "real \<Rightarrow> int" where
  "round_half_even q =
    (let f = \<lfloor>q\<rfloor>
     in if q - of_int f < 1 / 2 then f
        else if 1 / 2 < q - of_int f then f + 1
        else if even f then f else f + 1)"

text \<open>
  The conversion of a number to float32 (IEEE 754 binary32, round to nearest, ties to
  even): 24 significant bits, 2 to the power -149 as the smallest spacing, infinity
  from 2 to the power 128 on.
\<close>

definition float32_of_real :: "real \<Rightarrow> pyfloat" where
  "float32_of_real x =
    (if x = 0 then Finite 0
     else
       (let e = max \<lfloor>log 2 \<bar>x\<bar>\<rfloor> (- 126);
            ulp = 2 powr of_int (e - 23);
            y = of_int (round_half_even (x / ulp)) * ulp
        in if 2 ^ 128 \<le> \<bar>y\<bar> then (if 0 < x then PosInf else NegInf) else Finite y))"

fun float32 :: "pyfloat \<Rightarrow> pyfloat" where
  "float32 (Finite x) = float32_of_real x"
| "float32 PosInf = PosInf"
| "float32 NegInf = NegInf"
| "float32 NaN = NaN"

text \<open>
  \<^verbatim>\<open>predictions > xgboost_threshold\<close>, element by element. The predictions of xgboost
  and of the forest inference library are float32 arrays, and numpy compares such an
  array with a Python float in float32: the threshold is converted first.
\<close>

definition gt_array :: "pyfloat ndarray \<Rightarrow> pyfloat \<Rightarrow> bool ndarray" where
  "gt_array predictions t = map_ndarray (\<lambda>x. fgt x (float32 t)) predictions"

text \<open>\<^verbatim>\<open>(...) * 1.0\<close> on an array of booleans.\<close>

definition times_1 :: "bool ndarray \<Rightarrow> pyfloat ndarray" where
  "times_1 bs = map_ndarray (\<lambda>b. if b then Finite 1 else Finite 0) bs"

text \<open>\<^verbatim>\<open>"gpu" in model_filename\<close>: a contiguous substring.\<close>

fun contains :: "string \<Rightarrow> string \<Rightarrow> bool" where
  "contains sub [] = (sub = [])"
| "contains sub (c # cs) = (take (length sub) (c # cs) = sub \<or> contains sub cs)"

text \<open>The first \<^verbatim>\<open>try\<close> block of \<^verbatim>\<open>predict\<close> (\<^verbatim>\<open>DEBUG_FLAG\<close> is False).\<close>

definition parse_input :: "('m, 'j, 'q, 'd) world \<Rightarrow> request \<Rightarrow> exn + 'q" where
  "parse_input w req =
    (case lib (json_loads w (get_data req)) of
       Inl e \<Rightarrow> Inl e
     | Inr string_data \<Rightarrow> lib (numpy_array w string_data))"

text \<open>
  The second \<^verbatim>\<open>try\<close> block, up to the value of \<^verbatim>\<open>predictions\<close>: the predictions or
  the exception, and the calls of a model's \<^verbatim>\<open>predict\<close> that were made.
\<close>

definition inference ::
  "bool \<Rightarrow> pyfloat \<Rightarrow> ('m, 'j, 'q, 'd) world \<Rightarrow> 'm \<Rightarrow> model_type \<Rightarrow> string \<Rightarrow> 'q
     \<Rightarrow> (exn + pyfloat ndarray) \<times> event list" where
  "inference GPU_INFERENCE_FLAG xgboost_threshold w reloaded_model mtype model_filename query_data =
    (case mtype of
       XGBoost \<Rightarrow>
         (if GPU_INFERENCE_FLAG then
            (case lib (model_predict w reloaded_model (Ndarray query_data)) of
               Inl e \<Rightarrow> (Inl e, [Predict model_filename])
             | Inr predictions \<Rightarrow>
                 (Inr (times_1 (gt_array predictions xgboost_threshold)), [Predict model_filename]))
          else
            (case lib (xgboost_DMatrix w query_data) of
               Inl e \<Rightarrow> (Inl e, [])
             | Inr dm_deserialized_data \<Rightarrow>
                 (case lib (model_predict w reloaded_model (DMatrix dm_deserialized_data)) of
                    Inl e \<Rightarrow> (Inl e, [Predict model_filename])
                  | Inr predictions \<Rightarrow>
                      (Inr (times_1 (gt_array predictions xgboost_threshold)),
                       [Predict model_filename]))))
     | RandomForest \<Rightarrow>
         (if contains ''gpu'' model_filename \<and> \<not> GPU_INFERENCE_FLAG then
            (Inl (Exception ''attempting to run CPU inference on a GPU trained RandomForest model''), [])
          else
            (case lib (astype_float32 w query_data) of
               Inl e \<Rightarrow> (Inl e, [])
             | Inr q32 \<Rightarrow>
                 (case lib (model_predict w reloaded_model (Ndarray q32)) of
                    Inl e \<Rightarrow> (Inl e, [Predict model_filename])
                  | Inr predictions \<Rightarrow> (Inr predictions, [Predict model_filename]))))
     | KMeans \<Rightarrow>
         (if contains ''gpu'' model_filename \<and> \<not> GPU_INFERENCE_FLAG then
            (Inl (Exception ''attempting to run CPU inference on a GPU trained KMeans model''), [])
          else
            (case lib (astype_float32 w query_data) of
               Inl e \<Rightarrow> (Inl e, [])
             | Inr q32 \<Rightarrow>
                 (case lib (model_predict w reloaded_model (Ndarray q32)) of
                    Inl e \<Rightarrow> (Inl e, [Predict model_filename])
                  | Inr predictions \<Rightarrow> (Inr predictions, [Predict model_filename])))))"

definition unable_to_parse :: response where
  "unable_to_parse =
     \<lparr>response = Text ''Unable to parse input data[ should be json/string encoded list of arrays ]'',
      status = 415, mimetype = Some ''text/csv''\<rparr>"

definition inference_failure :: "exn \<Rightarrow> response" where
  "inference_failure inference_error =
     \<lparr>response = Text (''Inference failure: '' @ str inference_error @ [CHR 0x0A]),
      status = 400, mimetype = Some ''text/csv''\<rparr>"

definition predictions_response :: "pyfloat ndarray \<Rightarrow> response" where
  "predictions_response predictions =
     \<lparr>response = Json_dumps predictions, status = 200, mimetype = Some ''text/csv''\<rparr>"

text \<open>
  The view of POST /invocations. \<open>Inl\<close> is an exception that leaves the view: only the
  call of \<^verbatim>\<open>load_trained_model\<close> stands outside both \<^verbatim>\<open>try\<close> blocks.
\<close>

definition predict ::
  "bool \<Rightarrow> pyfloat \<Rightarrow> ('m, 'j, 'q, 'd) world \<Rightarrow> request \<Rightarrow> 'm server
     \<Rightarrow> (exn + response) \<times> 'm server" where
  "predict GPU_INFERENCE_FLAG xgboost_threshold w req s =
    (case parse_input w req of
       Inl _ \<Rightarrow> (Inr unable_to_parse, s)
     | Inr query_data \<Rightarrow>
         (case load_trained_model GPU_INFERENCE_FLAG w s of
            (Inl e, s') \<Rightarrow> (Inl e, s')
          | (Inr (reloaded_model, mtype, model_filename), s') \<Rightarrow>
              (case inference GPU_INFERENCE_FLAG xgboost_threshold w reloaded_model mtype
                      model_filename query_data of
                 (Inr predictions, evs) \<Rightarrow>
                   (Inr (predictions_response predictions), s'\<lparr>calls := calls s' @ evs\<rparr>)
               | (Inl inference_error, evs) \<Rightarrow>
                   (Inr (inference_failure inference_error), s'\<lparr>calls := calls s' @ evs\<rparr>))))"

subsection \<open>serve\<close>

text \<open>The default of the parameter \<^verbatim>\<open>xgboost_threshold\<close>, which \<^verbatim>\<open>serve()\<close> runs with.\<close>

definition default_threshold :: pyfloat where
  "default_threshold = Finite (1 / 2)"

text \<open>
  \<^verbatim>\<open>serve\<close> up to \<^verbatim>\<open>app.run\<close>: the routes are registered and the model is loaded once,
  before the first request. An exception of that load leaves \<^verbatim>\<open>serve\<close>, and the
  process exits with -1 without serving.
\<close>

definition serve_startup :: "bool \<Rightarrow> ('m, 'j, 'q, 'd) world \<Rightarrow> exn + 'm server" where
  "serve_startup GPU_INFERENCE_FLAG w =
    (case load_trained_model GPU_INFERENCE_FLAG w fresh of
       (Inl e, _) \<Rightarrow> Inl e
     | (Inr _, s) \<Rightarrow> Inr s)"

text \<open>
  Whether a rule's pattern matches a path. A pattern that ends with the converter
  \<^verbatim>\<open><path:filename>\<close> matches its prefix followed by a text that is not empty and
  does not start with a slash; any other pattern here is literal.
\<close>

definition rule_matches :: "string \<Rightarrow> string \<Rightarrow> bool" where
  "rule_matches pattern p =
    (if drop (length pattern - 15) pattern = ''<path:filename>'' then
       take (length pattern - 15) p = take (length pattern - 15) pattern \<and>
       (case drop (length pattern - 15) p of [] \<Rightarrow> False | c # _ \<Rightarrow> c \<noteq> CHR ''/'')
     else pattern = p)"

text \<open>
  Flask's dispatch of one request: the first rule that matches the request's path and
  answers its method. \<open>None\<close>: no rule does, or the request is an OPTIONS that Flask
  answers by itself.
\<close>

definition dispatch :: "flask \<Rightarrow> request \<Rightarrow> view option" where
  "dispatch app req =
    (case find (\<lambda>r. rule_matches (rule_path r) (req_path req) \<and> req_method req \<in> rule_methods r)
            (url_map app) of
       None \<Rightarrow> None
     | Some r \<Rightarrow>
         if req_method req = ''OPTIONS'' \<and> provide_automatic_options r then None
         else Some (endpoint r))"

text \<open>
  One request. \<open>None\<close>: no view of the script runs, Flask answers by itself (404, 405,
  OPTIONS, a static file). \<open>Some (Inl e)\<close>: the view raised \<open>e\<close>, Flask answers 500 and
  goes on serving.
\<close>

definition handle ::
  "bool \<Rightarrow> pyfloat \<Rightarrow> ('m, 'j, 'q, 'd) world \<Rightarrow> request \<Rightarrow> 'm server
     \<Rightarrow> (exn + response) option \<times> 'm server" where
  "handle GPU_INFERENCE_FLAG xgboost_threshold w req s =
    (case dispatch serve_app req of
       None \<Rightarrow> (None, s)
     | Some Static_view \<Rightarrow> (None, s)
     | Some Ping_view \<Rightarrow> (Some (Inr ping), s)
     | Some Predict_view \<Rightarrow>
         (case predict GPU_INFERENCE_FLAG xgboost_threshold w req s of
            (r, s') \<Rightarrow> (Some r, s')))"

text \<open>\<^verbatim>\<open>app.run\<close> over the requests that arrive, each in the world of its moment.\<close>

fun app_run ::
  "bool \<Rightarrow> pyfloat \<Rightarrow> 'm server \<Rightarrow> (('m, 'j, 'q, 'd) world \<times> request) list \<Rightarrow> 'm server" where
  "app_run g t s [] = s"
| "app_run g t s ((w, req) # rest) = app_run g t (snd (handle g t w req s)) rest"

text \<open>The calls that scan the model directory or deserialise a model.\<close>

fun scan_or_load :: "event \<Rightarrow> bool" where
  "scan_or_load (Glob _) = True"
| "scan_or_load (Load _) = True"
| "scan_or_load (Predict _) = False"

subsection \<open>Example worlds\<close>

text \<open>
  A CPU host with one XGBoost model file, whose \<^verbatim>\<open>predict\<close> gives 0.75 and 0.25; a
  loaded model is stood for by the name of its file.
\<close>

definition ex_world :: "(string, string, pyfloat ndarray, pyfloat ndarray) world" where
  "ex_world =
    \<lparr>glob = (\<lambda>p. if p = ''/opt/ml/model/*_xgb'' then [''/opt/ml/model/airline_xgb''] else []),
     ForestInference_load = Inr, Booster_load_model = Inr, joblib_load = Inr,
     json_loads = (\<lambda>d. if d = ''[[1, 2]]'' then Inr d else Inl ''Expecting value''),
     numpy_array = (\<lambda>j. Inr (Arr [Arr [Item (Finite 1), Item (Finite 2)]])),
     xgboost_DMatrix = Inr, astype_float32 = Inr,
     model_predict = (\<lambda>m x. Inr (Arr [Item (Finite (3 / 4)), Item (Finite (1 / 4))]))\<rparr>"

text \<open>The same host with a RandomForest model, a KMeans model, and no model at all.\<close>

definition rf_world :: "(string, string, pyfloat ndarray, pyfloat ndarray) world" where
  "rf_world =
     ex_world\<lparr>glob := (\<lambda>p. if p = ''/opt/ml/model/*_rf'' then [''/opt/ml/model/airline_rf''] else [])\<rparr>"

definition kmeans_world :: "(string, string, pyfloat ndarray, pyfloat ndarray) world" where
  "kmeans_world =
     ex_world\<lparr>glob := (\<lambda>p. if p = ''/opt/ml/model/*_kmeans'' then [''/opt/ml/model/a_kmeans''] else [])\<rparr>"

definition empty_world :: "(string, string, pyfloat ndarray, pyfloat ndarray) world" where
  "empty_world = ex_world\<lparr>glob := (\<lambda>p. [])\<rparr>"

text \<open>The XGBoost host with a model file that xgboost cannot read.\<close>

definition corrupt_world :: "(string, string, pyfloat ndarray, pyfloat ndarray) world" where
  "corrupt_world = ex_world\<lparr>Booster_load_model := (\<lambda>f. Inl ''not a model file'')\<rparr>"

text \<open>The XGBoost host with a model whose \<^verbatim>\<open>predict\<close> raises.\<close>

definition failing_world :: "(string, string, pyfloat ndarray, pyfloat ndarray) world" where
  "failing_world = ex_world\<lparr>model_predict := (\<lambda>m x. Inl ''feature shape mismatch'')\<rparr>"

text \<open>
  The XGBoost host with a model that gives the float32 next to 0.1, which is
  13421773 / 134217728 and lies above 0.1.
\<close>

definition tenth_world :: "(string, string, pyfloat ndarray, pyfloat ndarray) world" where
  "tenth_world =
     ex_world\<lparr>model_predict := (\<lambda>m x. Inr (Arr [Item (Finite (13421773 / 134217728))]))\<rparr>"

definition ex_request :: request where
  "ex_request = \<lparr>req_method = ''POST'', req_path = ''/invocations'', get_data = ''[[1, 2]]''\<rparr>"

definition bad_request :: request where
  "bad_request = \<lparr>req_method = ''POST'', req_path = ''/invocations'', get_data = ''hello''\<rparr>"

definition static_request :: request where
  "static_request = \<lparr>req_method = ''GET'', req_path = ''/static/style.css'', get_data = []\<rparr>"

text \<open>The process after its start on the XGBoost host, and on the RandomForest host.\<close>

definition ex_server :: "string server" where
  "ex_server =
    \<lparr>lru_cache = Some (''/opt/ml/model/airline_xgb'', XGBoost, ''/opt/ml/model/airline_xgb''),
     calls = [Glob ''/opt/ml/model/*_xgb'', Glob ''/opt/ml/model/*_rf'',
              Glob ''/opt/ml/model/*_kmeans'', Load ''/opt/ml/model/airline_xgb'']\<rparr>"

definition rf_server :: "string server" where
  "rf_server =
    \<lparr>lru_cache = Some (''/opt/ml/model/airline_rf'', RandomForest, ''/opt/ml/model/airline_rf''),
     calls = [Glob ''/opt/ml/model/*_xgb'', Glob ''/opt/ml/model/*_rf'',
              Glob ''/opt/ml/model/*_kmeans'', Load ''/opt/ml/model/airline_rf'']\<rparr>"

section \<open>The Sphinx configuration: source/conf.py\<close>

definition stable_version :: string where
  "stable_version = ''25.06''"

definition nightly_version :: string where
  "nightly_version = ''25.08''"

text \<open>A value of a version bundle: a string, or one of the two lists added at the end.\<close>

datatype conf_value = Str string | Strs "string list"

text \<open>A dictionary in the order of its keys; a missing key is a KeyError, here \<open>None\<close>.\<close>

type_synonym version_bundle = "(string \<times> conf_value) list"

definition stable_bundle :: version_bundle where
  "stable_bundle =
    [(''rapids_version'', Str stable_version),
     (''rapids_api_docs_version'', Str ''stable''),
     (''rapids_container'',
        Str (''nvcr.io/nvidia/rapidsai/base:'' @ stable_version @ ''-cuda12.8-py3.12'')),
     (''rapids_notebooks_container'',
        Str (''nvcr.io/nvidia/rapidsai/notebooks:'' @ stable_version @ ''-cuda12.8-py3.12'')),
     (''rapids_conda_channels'', Str ''-c rapidsai -c conda-forge -c nvidia''),
     (''rapids_conda_packages'',
        Str (''rapids='' @ stable_version @ '' python=3.12 cuda-version=12.8'')),
     (''rapids_pip_index'', Str ''https://pypi.nvidia.com''),
     (''rapids_pip_version'', Str stable_version),
     (''rapids_sagemaker_conda_packages'', Str ''rapids=24.12 python=3.12 cuda-version=12.5'')]"

definition nightly_bundle :: version_bundle where
  "nightly_bundle =
    [(''rapids_version'', Str nightly_version),
     (''rapids_api_docs_version'', Str ''nightly''),
     (''rapids_container'',
        Str (''rapidsai/base:'' @ (nightly_version @ ''a'') @ ''-cuda12.9-py3.12'')),
     (''rapids_notebooks_container'',
        Str (''rapidsai/notebooks:'' @ (nightly_version @ ''a'') @ ''-cuda12.9-py3.12'')),
     (''rapids_conda_channels'', Str ''-c rapidsai-nightly -c conda-forge -c nvidia''),
     (''rapids_conda_packages'',
        Str (''rapids='' @ nightly_version @ '' python=3.12 cuda-version=12.9'')),
     (''rapids_pip_index'', Str ''https://pypi.anaconda.org/rapidsai-wheels-nightly/simple''),
     (''rapids_pip_version'', Str (nightly_version @ ''.*,>=0.0.0a0'')),
     (''rapids_sagemaker_conda_packages'', Str ''rapids=24.12 python=3.12 cuda-version=12.5'')]"

definition versions :: "(string \<times> version_bundle) list" where
  "versions = [(''stable'', stable_bundle), (''nightly'', nightly_bundle)]"

text \<open>\<^verbatim>\<open>os.environ.get(key, default)\<close>\<close>

definition environ_get :: "(string \<rightharpoonup> string) \<Rightarrow> string \<Rightarrow> string \<Rightarrow> string" where
  "environ_get environ key dflt = (case environ key of None \<Rightarrow> dflt | Some v \<Rightarrow> v)"

text \<open>The conditional expression that chooses the bundle.\<close>

definition selected_version :: "(string \<rightharpoonup> string) \<Rightarrow> version_bundle option" where
  "selected_version environ =
    (if environ_get environ ''DEPLOYMENT_DOCS_BUILD_STABLE'' ''false'' = ''true''
     then map_of versions ''stable''
     else map_of versions ''nightly'')"

text \<open>\<^verbatim>\<open>str.split(sep)\<close> for a separator of one character.\<close>

fun split_char :: "char \<Rightarrow> string \<Rightarrow> string list" where
  "split_char c [] = [[]]"
| "split_char c (x # xs) =
     (if x = c then [] # split_char c xs
      else (case split_char c xs of
              w # ws \<Rightarrow> (x # w) # ws
            | [] \<Rightarrow> [[x]]))"

text \<open>\<^verbatim>\<open>d[key] = value\<close>: the key keeps its place, a new key goes last.\<close>

fun setitem :: "'k \<Rightarrow> 'v \<Rightarrow> ('k \<times> 'v) list \<Rightarrow> ('k \<times> 'v) list" where
  "setitem k v [] = [(k, v)]"
| "setitem k v (kv # kvs) = (if fst kv = k then (k, v) # kvs else kv # setitem k v kvs)"

text \<open>The two assignments that follow: the channels without the \<^verbatim>\<open>-c\<close>, the packages.\<close>

definition add_lists :: "version_bundle \<Rightarrow> version_bundle option" where
  "add_lists b =
    (case map_of b ''rapids_conda_channels'' of
       Some (Str channels) \<Rightarrow>
         (let b1 = setitem ''rapids_conda_channels_list''
                     (Strs (filter (\<lambda>channel. channel \<noteq> ''-c'') (split_char CHR '' '' channels))) b
          in case map_of b1 ''rapids_conda_packages'' of
               Some (Str packages) \<Rightarrow>
                 Some (setitem ''rapids_conda_packages_list''
                         (Strs (split_char CHR '' '' packages)) b1)
             | _ \<Rightarrow> None)
     | _ \<Rightarrow> None)"

text \<open>\<^verbatim>\<open>rapids_version\<close>, as the rest of the configuration reads it.\<close>

definition rapids_version :: "(string \<rightharpoonup> string) \<Rightarrow> version_bundle option" where
  "rapids_version environ =
    (case selected_version environ of None \<Rightarrow> None | Some b \<Rightarrow> add_lists b)"

section \<open>The release checklist: scripts/gen_release_checklist_issue.py\<close>

subsection \<open>Paths\<close>

text \<open>
  A \<^verbatim>\<open>pathlib\<close> path on a POSIX system: whether it starts at the root, and the names
  after that. The relative path of no name is \<^verbatim>\<open>.\<close>
\<close>

record path =
  absolute :: bool
  names :: "string list"

text \<open>\<^verbatim>\<open>parts\<close>, \<^verbatim>\<open>name\<close>, \<^verbatim>\<open>parent\<close>, the operator \<^verbatim>\<open>/\<close> and \<^verbatim>\<open>str()\<close>.\<close>

definition parts :: "path \<Rightarrow> string list" where
  "parts p = (if absolute p then ''/'' # names p else names p)"

definition path_name :: "path \<Rightarrow> string" where
  "path_name p = (if names p = [] then [] else last (names p))"

definition parent :: "path \<Rightarrow> path" where
  "parent p = p\<lparr>names := butlast (names p)\<rparr>"

definition joinpath :: "path \<Rightarrow> string list \<Rightarrow> path" where
  "joinpath p ns = p\<lparr>names := names p @ ns\<rparr>"

fun join_parts :: "string list \<Rightarrow> string" where
  "join_parts [] = []"
| "join_parts [x] = x"
| "join_parts (x # y # ys) = x @ ''/'' @ join_parts (y # ys)"

definition str_path :: "path \<Rightarrow> string" where
  "str_path p =
    (if absolute p then ''/'' @ join_parts (names p)
     else if names p = [] then ''.''
     else join_parts (names p))"

text \<open>\<^verbatim>\<open>str.rfind\<close> of one character: the last index where it stands.\<close>

fun rfind :: "char \<Rightarrow> string \<Rightarrow> nat option" where
  "rfind c [] = None"
| "rfind c (x # xs) =
     (case rfind c xs of
        Some i \<Rightarrow> Some (Suc i)
      | None \<Rightarrow> if x = c then Some 0 else None)"

text \<open>
  \<^verbatim>\<open>PurePath.suffix\<close>, computed on the path's name as pathlib does: the name from
  its last dot on, unless that dot is the first or the last character of the name.
\<close>

definition suffix :: "string \<Rightarrow> string" where
  "suffix nm =
    (case rfind CHR ''.'' nm of
       Some i \<Rightarrow> if 0 < i \<and> i < length nm - 1 then drop i nm else []
     | None \<Rightarrow> [])"

text \<open>\<^verbatim>\<open>with_suffix("")\<close>, called on a path whose name is not empty.\<close>

definition with_suffix_empty :: "path \<Rightarrow> path" where
  "with_suffix_empty p =
    (let nm = path_name p; old_suffix = suffix nm
     in p\<lparr>names := butlast (names p) @
                     [if old_suffix = [] then nm else take (length nm - length old_suffix) nm]\<rparr>)"

datatype py_error = ValueError string | LoadError string

text \<open>\<^verbatim>\<open>relative_to\<close>: the names after \<open>other\<close>, a ValueError when \<open>other\<close> is no prefix.\<close>

definition relative_to :: "path \<Rightarrow> path \<Rightarrow> py_error + path" where
  "relative_to p other =
    (if absolute p = absolute other \<and> take (length (names other)) (names p) = names other
     then Inr \<lparr>absolute = False, names = drop (length (names other)) (names p)\<rparr>
     else Inl (ValueError ([CHR 0x27] @ str_path p @ [CHR 0x27] @ '' is not in the subpath of '' @
                 [CHR 0x27] @ str_path other @ [CHR 0x27] @
                 '' OR one path is relative and the other is absolute.'')))"

subsection \<open>The tree below source/\<close>

text \<open>
  One path that \<^verbatim>\<open>rglob("*")\<close> yields: its names below the source directory, whether
  it is a regular file, and what \<^verbatim>\<open>frontmatter.load\<close> gives on it: the metadata, each
  value through \<^verbatim>\<open>str()\<close>, or \<open>Inl\<close> the message of the exception it raises (one
  that is no KeyError: the script catches that one and keeps p2).
\<close>

record entry =
  rel :: "string list"
  is_file :: bool
  frontmatter_load :: "string + (string \<times> string) list"

record page =
  page_file :: path
  url :: string
  priority :: string

record plist =
  name :: string
  pages :: "page list"

text \<open>The dictionary \<^verbatim>\<open>priority_lists\<close>, in the order of its keys.\<close>

definition priority_lists :: "(string \<times> plist) list" where
  "priority_lists =
    [(''index'', \<lparr>name = ''Index/Non-technical'', pages = []\<rparr>),
     (''p0'', \<lparr>name = ''P0'', pages = []\<rparr>),
     (''p1'', \<lparr>name = ''P1'', pages = []\<rparr>),
     (''p2'', \<lparr>name = ''P2'', pages = []\<rparr>)]"

text \<open>\<^verbatim>\<open>priority_lists[priority]["pages"].append(file_info)\<close>\<close>

definition append_page :: "page \<Rightarrow> (string \<times> plist) list \<Rightarrow> (string \<times> plist) list" where
  "append_page file_info pl =
    map (\<lambda>(k, d). if k = priority file_info then (k, d\<lparr>pages := pages d @ [file_info]\<rparr>)
                   else (k, d)) pl"

definition nightly_url :: string where
  "nightly_url = ''https://docs.rapids.ai/deployment/nightly/''"

text \<open>The string that the loop puts after the base URL, from \<^verbatim>\<open>rel_path\<close>.\<close>

definition rel_string :: "path \<Rightarrow> string" where
  "rel_string rel_path =
    (if path_name rel_path \<noteq> [] then str_path (with_suffix_empty rel_path)
     else if str_path rel_path = ''.'' then []
     else str_path rel_path)"

text \<open>The body of the loop for a file that passed the filters, up to \<^verbatim>\<open>file_info\<close>.\<close>

definition file_info_of :: "path \<Rightarrow> entry \<Rightarrow> py_error + page" where
  "file_info_of source e =
    (let f = joinpath source (rel e) in
     case relative_to (if ''index.md'' \<in> set (parts f) then parent f else f) source of
       Inl err \<Rightarrow> Inl err
     | Inr rel_path \<Rightarrow>
         (case (if suffix (path_name f) = ''.md'' then
                  (case frontmatter_load e of
                     Inl msg \<Rightarrow> Inl (LoadError msg)
                   | Inr metadata \<Rightarrow>
                       (case map_of metadata ''review_priority'' of
                          None \<Rightarrow> Inr ''p2''
                        | Some v \<Rightarrow> Inr v))
                else Inr ''p2'') of
            Inl err \<Rightarrow> Inl err
          | Inr pr \<Rightarrow>
              Inr \<lparr>page_file = f, url = nightly_url @ rel_string rel_path, priority = pr\<rparr>))"

definition unknown_priority :: "string \<Rightarrow> path \<Rightarrow> py_error" where
  "unknown_priority pr f =
     ValueError (''Unknown review_priority '' @ [CHR 0x27] @ pr @ [CHR 0x27] @
                 '' for page '' @ str_path f)"

text \<open>The loop over the files: the dictionary it builds, or the exception that ends it.\<close>

fun walk :: "path \<Rightarrow> entry list \<Rightarrow> (string \<times> plist) list \<Rightarrow> py_error + (string \<times> plist) list" where
  "walk source [] pl = Inr pl"
| "walk source (e # es) pl =
    (if is_file e \<and> suffix (path_name (joinpath source (rel e))) \<in> set [''.ipynb'', ''.md''] then
       (if ''_includes'' \<in> set (parts (joinpath source (rel e))) then walk source es pl
        else if ''.ipynb_checkpoints'' \<in> set (parts (joinpath source (rel e)))
          then walk source es pl
        else
          (case file_info_of source e of
             Inl err \<Rightarrow> Inl err
           | Inr file_info \<Rightarrow>
               if priority file_info \<in> set (map fst pl)
               then walk source es (append_page file_info pl)
               else Inl (unknown_priority (priority file_info) (page_file file_info))))
     else walk source es pl)"

text \<open>What the script prints: one string for each call of \<^verbatim>\<open>print\<close>.\<close>

definition header :: string where
  "header = concat (map (\<lambda>l. l @ [CHR 0x0A])
    [''# Release checklist'',
     '''',
     ''For the upcoming release we need to verify our documentation. This is a best efforts activity'',
     ''so please refer to the checklist from the previous release and focus on pages that were not'',
     ''verified last time.'',
     '''',
     ''## Verify pages'',
     '''',
     ''- Look at the nightly build of each page listed below'',
     ''- Check page renders correctly'',
     ''- Check for spelling/grammar problems'',
     ''- Check that the instructions work as expected'',
     ''- Ensure legacy pages with out of date instructions have a content warning'',
     ''- If page needs updating convert the task to an issue and open a PR that closes the issue'',
     ''''])"

definition print_section :: "plist \<Rightarrow> string list" where
  "print_section d =
    (if pages d = [] then []
     else [''### '' @ name d @ [CHR 0x0A]] @
          map (\<lambda>pg. ''- [ ] '' @ url pg) (sort_key url (pages d)) @
          [''''])"

definition footer :: "path \<Rightarrow> string" where
  "footer script_name =
     ''_Issue text generated by '' @ path_name (parent script_name) @ ''/'' @
     path_name script_name @ ''._''"

text \<open>\<^verbatim>\<open>script_dir.parent / "source"\<close>\<close>

definition source_dir :: "path \<Rightarrow> path" where
  "source_dir script_name = joinpath (parent (parent script_name)) [''source'']"

text \<open>
  The whole script, for the resolved path of the script and the paths that the walk
  yields, in its order: what was printed, and the exception that ended the run, if any.
\<close>

definition gen_release_checklist_issue :: "path \<Rightarrow> entry list \<Rightarrow> string list \<times> py_error option" where
  "gen_release_checklist_issue script_name tree =
    (case walk (source_dir script_name) tree priority_lists of
       Inl err \<Rightarrow> ([header], Some err)
     | Inr pl \<Rightarrow>
         ([header] @ concat (map (\<lambda>(k, d). print_section d) pl) @ [footer script_name], None))"

subsection \<open>The checklist as the specification words it\<close>

text \<open>A name with the given suffix: something stands before it.\<close>

definition ends_with :: "string \<Rightarrow> string \<Rightarrow> bool" where
  "ends_with ext nm = (length ext < length nm \<and> drop (length nm - length ext) nm = ext)"

text \<open>
  A file of the checklist: a regular file below source/ with suffix .md or .ipynb, no
  directory on whose path is named \<^verbatim>\<open>_includes\<close> or \<^verbatim>\<open>.ipynb_checkpoints\<close>.
\<close>

definition checklist_file :: "path \<Rightarrow> entry \<Rightarrow> bool" where
  "checklist_file source e =
    (is_file e \<and> rel e \<noteq> [] \<and>
     (ends_with ''.md'' (last (rel e)) \<or> ends_with ''.ipynb'' (last (rel e))) \<and>
     ''_includes'' \<notin> set (names source @ butlast (rel e)) \<and>
     ''.ipynb_checkpoints'' \<notin> set (names source @ butlast (rel e)))"

text \<open>Its review priority: the front matter's of a markdown page, p2 without one.\<close>

definition spec_priority :: "entry \<Rightarrow> string" where
  "spec_priority e =
    (if ends_with ''.md'' (last (rel e)) then
       (case frontmatter_load e of
          Inr metadata \<Rightarrow>
            (case map_of metadata ''review_priority'' of Some v \<Rightarrow> v | None \<Rightarrow> ''p2'')
        | Inl msg \<Rightarrow> ''p2'')
     else ''p2'')"

text \<open>
  Its URL: the path below source/ without the file's suffix, the directory for a file
  named index.md.
\<close>

definition spec_url :: "entry \<Rightarrow> string" where
  "spec_url e =
    nightly_url @
    (if last (rel e) = ''index.md'' then join_parts (butlast (rel e))
     else join_parts (butlast (rel e) @
            [take (length (last (rel e)) - (if ends_with ''.md'' (last (rel e)) then 3 else 6))
               (last (rel e))]))"

text \<open>
  What makes the script fail at a file of the checklist: a front matter that does not
  load, or a review priority that is none of the four.
\<close>

definition entry_failure :: "path \<Rightarrow> entry \<Rightarrow> py_error option" where
  "entry_failure source e =
    (if checklist_file source e then
       (if ends_with ''.md'' (last (rel e)) then
          (case frontmatter_load e of
             Inl msg \<Rightarrow> Some (LoadError msg)
           | Inr metadata \<Rightarrow>
               if spec_priority e \<in> {''index'', ''p0'', ''p1'', ''p2''} then None
               else Some (unknown_priority (spec_priority e) (joinpath source (rel e))))
        else None)
     else None)"

text \<open>The record that the loop keeps for such a file.\<close>

definition spec_page :: "path \<Rightarrow> entry \<Rightarrow> page" where
  "spec_page source e =
     \<lparr>page_file = joinpath source (rel e), url = spec_url e, priority = spec_priority e\<rparr>"

text \<open>One group: its title, its entries in ascending order of the URLs, an empty line.\<close>

definition spec_group :: "path \<Rightarrow> entry list \<Rightarrow> string \<Rightarrow> string \<Rightarrow> string list" where
  "spec_group source tree key title =
    (let urls = sort (map spec_url
                  (filter (\<lambda>e. checklist_file source e \<and> spec_priority e = key) tree))
     in if urls = [] then []
        else [''### '' @ title @ [CHR 0x0A]] @ map (\<lambda>u. ''- [ ] '' @ u) urls @ [''''])"

definition spec_checklist :: "path \<Rightarrow> entry list \<Rightarrow> string list \<times> py_error option" where
  "spec_checklist script_name tree =
    (let source = source_dir script_name in
     case List.map_filter (entry_failure source) tree of
       err # _ \<Rightarrow> ([header], Some err)
     | [] \<Rightarrow>
         ([header] @
          spec_group source tree ''index'' ''Index/Non-technical'' @
          spec_group source tree ''p0'' ''P0'' @
          spec_group source tree ''p1'' ''P1'' @
          spec_group source tree ''p2'' ''P2'' @
          [footer script_name], None))"

text \<open>
  The paths on which the URL is the one above: index.md is the name of no directory, and
  the directory that holds an index.md has no suffix of its own.
\<close>

definition plain_path :: "path \<Rightarrow> entry \<Rightarrow> bool" where
  "plain_path source e =
    (''index.md'' \<notin> set (names source @ butlast (rel e)) \<and>
     (butlast (rel e) = [] \<or> last (rel e) \<noteq> ''index.md'' \<or> suffix (last (butlast (rel e))) = []))"

subsection \<open>Example trees\<close>

definition ex_script :: path where
  "ex_script =
     \<lparr>absolute = True, names = [''repo'', ''scripts'', ''gen_release_checklist_issue.py'']\<rparr>"

definition ex_tree :: "entry list" where
  "ex_tree =
    [\<lparr>rel = [''index.md''], is_file = True,
      frontmatter_load = Inr [(''review_priority'', ''index'')]\<rparr>,
     \<lparr>rel = [''cloud''], is_file = False, frontmatter_load = Inl ''is a directory''\<rparr>,
     \<lparr>rel = [''cloud'', ''index.md''], is_file = True,
      frontmatter_load = Inr [(''review_priority'', ''p0'')]\<rparr>,
     \<lparr>rel = [''cloud'', ''gcp.md''], is_file = True, frontmatter_load = Inr []\<rparr>,
     \<lparr>rel = [''cloud'', ''aws.ipynb''], is_file = True, frontmatter_load = Inl ''not a page''\<rparr>,
     \<lparr>rel = [''_includes'', ''note.md''], is_file = True, frontmatter_load = Inr []\<rparr>,
     \<lparr>rel = [''logo.png''], is_file = True, frontmatter_load = Inl ''not a page''\<rparr>]"

text \<open>A directory with a dot in its name that holds an index.md, and a directory named index.md.\<close>

definition dotted_tree :: "entry list" where
  "dotted_tree =
    [\<lparr>rel = [''v1.2'', ''index.md''], is_file = True, frontmatter_load = Inr []\<rparr>,
     \<lparr>rel = [''index.md'', ''notes.md''], is_file = True, frontmatter_load = Inr []\<rparr>]"

definition bad_tree :: "entry list" where
  "bad_tree =
    [\<lparr>rel = [''a.md''], is_file = True, frontmatter_load = Inr [(''review_priority'', ''p0'')]\<rparr>,
     \<lparr>rel = [''b.md''], is_file = True, frontmatter_load = Inr [(''review_priority'', ''p3'')]\<rparr>]"

text \<open>A markdown page whose front matter is not valid YAML.\<close>

definition unloadable_tree :: "entry list" where
  "unloadable_tree =
    [\<lparr>rel = [''a.md''], is_file = True, frontmatter_load = Inl ''could not parse front matter''\<rparr>]"

section \<open>Properties of the model server\<close>

subsection \<open>Steps of the views\<close>

lemma load_cached: "lru_cache s = Some t \<Longrightarrow> load_trained_model g w s = (Inr t, s)"
  by (simp add: load_trained_model_def)

lemma load_miss:
  "lru_cache s = None \<Longrightarrow> fst (load_trained_model g w s) = fst (load_trained_model_body g w)"
  by (simp add: load_trained_model_def split: prod.splits sum.splits)

lemma load_result_cached:
  "load_trained_model g w s = (Inr t, s') \<Longrightarrow> lru_cache s' = Some t"
  by (auto simp: load_trained_model_def split: option.splits prod.splits sum.splits)

lemma predict_parse_fail:
  "parse_input w req = Inl e \<Longrightarrow> predict g thr w req s = (Inr unable_to_parse, s)"
  by (simp add: predict_def)

lemma predict_cached:
  "parse_input w req = Inr q \<Longrightarrow> lru_cache s = Some (m, ty, fn) \<Longrightarrow>
   predict g thr w req s =
     (case inference g thr w m ty fn q of
        (Inr p, evs) \<Rightarrow> (Inr (predictions_response p), s\<lparr>calls := calls s @ evs\<rparr>)
      | (Inl e, evs) \<Rightarrow> (Inr (inference_failure e), s\<lparr>calls := calls s @ evs\<rparr>))"
  by (simp add: predict_def load_cached)

lemma predict_200:
  assumes "predict g thr w req s = (Inr r, s')" and "status r = 200"
  shows "\<exists>q m ty fn p evs s1. parse_input w req = Inr q \<and>
           load_trained_model g w s = (Inr (m, ty, fn), s1) \<and>
           inference g thr w m ty fn q = (Inr p, evs) \<and> r = predictions_response p \<and>
           s' = s1\<lparr>calls := calls s1 @ evs\<rparr>"
  using assms
  by (auto simp: predict_def unable_to_parse_def inference_failure_def
      split: sum.splits prod.splits)

lemma inference_xgb:
  "inference g thr w m XGBoost fn q = (Inr p, evs) \<Longrightarrow>
   \<exists>x raw. model_predict w m x = Inr raw \<and> p = times_1 (gt_array raw thr)"
  by (auto simp: inference_def lib_def split: if_splits sum.splits)

lemma inference_other:
  "ty \<noteq> XGBoost \<Longrightarrow> inference g thr w m ty fn q = (Inr p, evs) \<Longrightarrow>
   \<exists>x. model_predict w m x = Inr p"
  by (cases ty) (auto simp: inference_def lib_def split: if_splits sum.splits)

lemma inference_xgb_ok:
  "(if g then x = Ndarray q else \<exists>d. xgboost_DMatrix w q = Inr d \<and> x = DMatrix d) \<Longrightarrow>
   model_predict w m x = Inr p \<Longrightarrow>
   fst (inference g thr w m XGBoost fn q) = Inr (times_1 (gt_array p thr))"
  by (auto simp: inference_def lib_def split: if_splits)

lemma inference_other_ok:
  "ty \<noteq> XGBoost \<Longrightarrow> \<not> (contains ''gpu'' fn \<and> \<not> g) \<Longrightarrow> astype_float32 w q = Inr q32 \<Longrightarrow>
   model_predict w m (Ndarray q32) = Inr p \<Longrightarrow>
   fst (inference g thr w m ty fn q) = Inr p"
  by (cases ty) (simp_all add: inference_def lib_def)

lemma inference_events: "filter scan_or_load (snd (inference g thr w m ty fn q)) = []"
  by (simp add: inference_def split: model_type.splits sum.splits)

lemma set_times_1: "x \<in> set_ndarray (times_1 bs) \<Longrightarrow> x = Finite 0 \<or> x = Finite 1"
  by (auto simp: times_1_def ndarray.set_map)

subsection \<open>The conversion to float32 and the comparison\<close>

lemma floor_log2_half: "\<lfloor>log 2 (1 / 2 :: real)\<rfloor> = - 1"
  by (simp add: floor_log_eq_powr_iff powr_neg_numeral powr_minus)

lemma floor_log2_tenth: "\<lfloor>log 2 (1 / 10 :: real)\<rfloor> = - 4"
  by (simp add: floor_log_eq_powr_iff powr_neg_numeral)

lemma float32_of_half: "float32_of_real (1 / 2) = Finite (1 / 2)"
  by (simp add: float32_of_real_def floor_log2_half powr_neg_numeral round_half_even_def Let_def)

lemma float32_of_tenth: "float32_of_real (1 / 10) = Finite (13421773 / 134217728)"
  by (simp add: float32_of_real_def floor_log2_tenth powr_neg_numeral round_half_even_def
      Let_def)

lemma float32_half: "float32 (Finite (1 / 2)) = Finite (1 / 2)"
  by (simp add: float32_of_half)

lemma float32_tenth: "float32 (Finite (1 / 10)) = Finite (13421773 / 134217728)"
  by (simp add: float32_of_tenth)

lemma binarized:
  "times_1 (gt_array p thr) =
     map_ndarray (\<lambda>v. if fgt v (float32 thr) then Finite 1 else Finite 0) p"
  by (simp add: times_1_def gt_array_def ndarray.map_comp comp_def)

subsection \<open>The rules of the application\<close>

lemma serve_url_map:
  "url_map serve_app =
     [\<lparr>rule_path = ''/static/<path:filename>'', rule_methods = {''GET'', ''HEAD'', ''OPTIONS''},
       provide_automatic_options = True, endpoint = Static_view\<rparr>,
      \<lparr>rule_path = ''/ping'', rule_methods = {''GET'', ''HEAD'', ''OPTIONS''},
       provide_automatic_options = True, endpoint = Ping_view\<rparr>,
      \<lparr>rule_path = ''/invocations'', rule_methods = {''POST'', ''OPTIONS''},
       provide_automatic_options = True, endpoint = Predict_view\<rparr>]"
  by (simp add: serve_app_def route_def Flask_def add_url_rule_def insert_commute)

lemma literal_rules:
  "rule_matches ''/ping'' p = (p = ''/ping'')"
  "rule_matches ''/invocations'' p = (p = ''/invocations'')"
  by (auto simp: rule_matches_def)

lemma static_not_script_paths:
  "\<not> rule_matches ''/static/<path:filename>'' ''/ping''"
  "\<not> rule_matches ''/static/<path:filename>'' ''/invocations''"
  by (simp_all add: rule_matches_def)

lemma dispatch_serve_app:
  "dispatch serve_app req =
    (if rule_matches ''/static/<path:filename>'' (req_path req) \<and>
        req_method req \<in> {''GET'', ''HEAD'', ''OPTIONS''}
     then (if req_method req = ''OPTIONS'' then None else Some Static_view)
     else if req_path req = ''/ping'' \<and> req_method req \<in> {''GET'', ''HEAD'', ''OPTIONS''}
     then (if req_method req = ''OPTIONS'' then None else Some Ping_view)
     else if req_path req = ''/invocations'' \<and> req_method req \<in> {''POST'', ''OPTIONS''}
     then (if req_method req = ''OPTIONS'' then None else Some Predict_view)
     else None)"
  unfolding dispatch_def serve_url_map
  by (auto simp: literal_rules static_not_script_paths)

subsection \<open>The cache is kept by every request\<close>

lemma predict_keeps:
  assumes "lru_cache s = Some t"
  shows "lru_cache (snd (predict g thr w req s)) = Some t"
    and "filter scan_or_load (calls (snd (predict g thr w req s))) = filter scan_or_load (calls s)"
proof -
  obtain m ty fn where t: "t = (m, ty, fn)"
    by (cases t) auto
  show "lru_cache (snd (predict g thr w req s)) = Some t"
  proof (cases "parse_input w req")
    case (Inl e)
    then show ?thesis
      using assms by (simp add: predict_parse_fail)
  next
    case (Inr q)
    then show ?thesis
      using assms t by (simp add: predict_cached split: prod.splits sum.splits)
  qed
  show "filter scan_or_load (calls (snd (predict g thr w req s))) = filter scan_or_load (calls s)"
  proof (cases "parse_input w req")
    case (Inl e)
    then show ?thesis
      by (simp add: predict_parse_fail)
  next
    case (Inr q)
    have "filter scan_or_load (snd (inference g thr w m ty fn q)) = []"
      by (rule inference_events)
    then show ?thesis
      using assms t Inr by (auto simp: predict_cached split: prod.splits sum.splits)
  qed
qed

lemma handle_keeps:
  assumes "lru_cache s = Some t"
  shows "lru_cache (snd (handle g thr w req s)) = Some t"
    and "filter scan_or_load (calls (snd (handle g thr w req s))) = filter scan_or_load (calls s)"
  using assms predict_keeps [OF assms, of g thr w req]
  by (auto simp: handle_def split: option.splits view.splits prod.splits)

lemma app_run_keeps:
  "lru_cache s = Some t \<Longrightarrow>
   lru_cache (app_run g thr s rs) = Some t \<and>
   filter scan_or_load (calls (app_run g thr s rs)) = filter scan_or_load (calls s)"
proof (induction rs arbitrary: s)
  case Nil
  then show ?case
    by simp
next
  case (Cons a rs)
  obtain w req where a: "a = (w, req)"
    by (cases a) auto
  from handle_keeps [OF Cons.prems, of g thr w req] Cons.IH [of "snd (handle g thr w req s)"]
  show ?case
    by (simp add: a)
qed

lemma body_events:
  "load_trained_model_body g w = (Inr (m, ty, fn), evs) \<Longrightarrow>
   evs = [Glob ''/opt/ml/model/*_xgb'', Glob ''/opt/ml/model/*_rf'',
          Glob ''/opt/ml/model/*_kmeans'', Load fn]"
  by (auto simp: load_trained_model_body_def Let_def split: list.splits sum.splits if_splits)

lemma startup_state:
  assumes "serve_startup g w0 = Inr s1"
  shows "\<exists>m ty fn. lru_cache s1 = Some (m, ty, fn) \<and>
           calls s1 = [Glob ''/opt/ml/model/*_xgb'', Glob ''/opt/ml/model/*_rf'',
                       Glob ''/opt/ml/model/*_kmeans'', Load fn]"
proof -
  from assms obtain t evs where b: "load_trained_model_body g w0 = (Inr t, evs)"
    and s1: "s1 = fresh\<lparr>lru_cache := Some t, calls := calls fresh @ evs\<rparr>"
    by (auto simp: serve_startup_def load_trained_model_def fresh_def
        split: prod.splits sum.splits)
  obtain m ty fn where t: "t = (m, ty, fn)"
    by (cases t) auto
  from body_events [OF b [unfolded t]] s1 t show ?thesis
    by (simp add: fresh_def)
qed

subsection \<open>The example worlds, evaluated\<close>

lemma ex_glob_xgb: "glob ex_world ''/opt/ml/model/*_xgb'' = [''/opt/ml/model/airline_xgb'']"
  by (simp add: ex_world_def)

lemma ex_body:
  "load_trained_model_body False ex_world =
     (Inr (''/opt/ml/model/airline_xgb'', XGBoost, ''/opt/ml/model/airline_xgb''),
      [Glob ''/opt/ml/model/*_xgb'', Glob ''/opt/ml/model/*_rf'',
       Glob ''/opt/ml/model/*_kmeans'', Load ''/opt/ml/model/airline_xgb''])"
  by (simp add: load_trained_model_body_def ex_world_def lib_def)

lemma ex_startup: "serve_startup False ex_world = Inr ex_server"
  by (simp add: serve_startup_def load_trained_model_def ex_body fresh_def ex_server_def)

lemma empty_body:
  "load_trained_model_body False empty_world =
     (Inl (Exception ''! No trained models detected''),
      [Glob ''/opt/ml/model/*_xgb'', Glob ''/opt/ml/model/*_rf'', Glob ''/opt/ml/model/*_kmeans''])"
  by (simp add: load_trained_model_body_def empty_world_def ex_world_def)

lemma empty_startup:
  "serve_startup False empty_world = Inl (Exception ''! No trained models detected'')"
  by (simp add: serve_startup_def load_trained_model_def empty_body fresh_def)

lemma ex_parse:
  "parse_input ex_world ex_request = Inr (Arr [Arr [Item (Finite 1), Item (Finite 2)]])"
  by (simp add: parse_input_def ex_world_def ex_request_def lib_def)

lemma ex_parse_bad: "parse_input ex_world bad_request = Inl (LibraryError ''Expecting value'')"
  by (simp add: parse_input_def ex_world_def bad_request_def lib_def)

lemma rf_parse:
  "parse_input rf_world ex_request = Inr (Arr [Arr [Item (Finite 1), Item (Finite 2)]])"
  by (simp add: parse_input_def rf_world_def ex_world_def ex_request_def lib_def)

lemma failing_parse:
  "parse_input failing_world ex_request = Inr (Arr [Arr [Item (Finite 1), Item (Finite 2)]])"
  by (simp add: parse_input_def failing_world_def ex_world_def ex_request_def lib_def)

lemma ex_model_predict:
  "model_predict ex_world m x = Inr (Arr [Item (Finite (3 / 4)), Item (Finite (1 / 4))])"
  by (simp add: ex_world_def)

lemma rf_model_predict:
  "model_predict rf_world m x = Inr (Arr [Item (Finite (3 / 4)), Item (Finite (1 / 4))])"
  by (simp add: rf_world_def ex_world_def)

lemma ex_world_DMatrix: "xgboost_DMatrix ex_world q = Inr q"
  by (simp add: ex_world_def)

lemma tenth_world_DMatrix: "xgboost_DMatrix tenth_world q = Inr q"
  by (simp add: tenth_world_def ex_world_def)

lemma ex_binarized:
  "times_1 (gt_array (Arr [Item (Finite (3 / 4)), Item (Finite (1 / 4))]) default_threshold) =
     Arr [Item (Finite 1), Item (Finite 0)]"
  by (simp add: binarized default_threshold_def float32_half float32_of_half)

lemma ex_inference:
  "inference False default_threshold ex_world m XGBoost fn q =
     (Inr (Arr [Item (Finite 1), Item (Finite 0)]), [Predict fn])"
  by (simp add: inference_def lib_def ex_model_predict ex_binarized ex_world_DMatrix)

lemma failing_inference:
  "inference False default_threshold failing_world m XGBoost fn q =
     (Inl (LibraryError ''feature shape mismatch''), [Predict fn])"
  by (simp add: inference_def lib_def failing_world_def ex_world_def)

lemma ex_predict:
  "predict False default_threshold ex_world ex_request ex_server =
     (Inr (predictions_response (Arr [Item (Finite 1), Item (Finite 0)])),
      ex_server\<lparr>calls := calls ex_server @ [Predict ''/opt/ml/model/airline_xgb'']\<rparr>)"
  by (simp add: predict_cached [OF ex_parse] ex_server_def ex_inference)

lemma failing_predict:
  "fst (predict False default_threshold failing_world ex_request ex_server) =
     Inr (inference_failure (LibraryError ''feature shape mismatch''))"
  by (simp add: predict_cached [OF failing_parse] ex_server_def failing_inference)

lemma tenth_parse:
  "parse_input tenth_world ex_request = Inr (Arr [Arr [Item (Finite 1), Item (Finite 2)]])"
  by (simp add: parse_input_def tenth_world_def ex_world_def ex_request_def lib_def)

lemma tenth_model_predict:
  "model_predict tenth_world m x = Inr (Arr [Item (Finite (13421773 / 134217728))])"
  by (simp add: tenth_world_def)

lemma tenth_inference:
  "inference False (Finite (1 / 10)) tenth_world m XGBoost fn q =
     (Inr (Arr [Item (Finite 0)]), [Predict fn])"
  by (simp add: inference_def lib_def tenth_model_predict binarized float32_of_tenth
      tenth_world_DMatrix)

lemma tenth_predict:
  "predict False (Finite (1 / 10)) tenth_world ex_request ex_server =
     (Inr (predictions_response (Arr [Item (Finite 0)])),
      ex_server\<lparr>calls := calls ex_server @ [Predict ''/opt/ml/model/airline_xgb'']\<rparr>)"
  by (simp add: predict_cached [OF tenth_parse] ex_server_def tenth_inference)

subsection \<open>The claims\<close>

text \<open>
  C1, as stated, puts the scan and the deserialisation on the first request that needs
  the model. \<^verbatim>\<open>serve\<close> calls \<^verbatim>\<open>load_trained_model\<close> itself before \<^verbatim>\<open>app.run\<close>: on
  the XGBoost host the three scans and the load are done when the start is over and no
  request has arrived, and on a host without a model file the start itself raises.
\<close>

theorem load_on_first_request_counterexample:
  "serve_startup False ex_world =
     Inr \<lparr>lru_cache = Some (''/opt/ml/model/airline_xgb'', XGBoost, ''/opt/ml/model/airline_xgb''),
          calls = [Glob ''/opt/ml/model/*_xgb'', Glob ''/opt/ml/model/*_rf'',
                   Glob ''/opt/ml/model/*_kmeans'', Load ''/opt/ml/model/airline_xgb'']\<rparr> \<and>
   serve_startup False empty_world = Inl (Exception ''! No trained models detected'')"
  using ex_startup empty_startup by (simp add: ex_server_def)

text \<open>
  C1, amended: a serving process scans the model directory and deserialises a model
  exactly once, in \<^verbatim>\<open>serve\<close> before the first request (if that load raises, the process
  does not serve). From then on, whatever requests arrive and whatever the file system
  and the libraries do, the cache holds the same triple, no scan and no load is added to
  the calls, and every call of \<^verbatim>\<open>load_trained_model\<close> returns that triple and leaves
  the state as it is.
\<close>

theorem model_loaded_once_at_startup:
  assumes "serve_startup g w0 = Inr s1"
  shows "\<exists>m ty fn. lru_cache s1 = Some (m, ty, fn) \<and>
           calls s1 = [Glob ''/opt/ml/model/*_xgb'', Glob ''/opt/ml/model/*_rf'',
                       Glob ''/opt/ml/model/*_kmeans'', Load fn] \<and>
           (\<forall>thr rs. lru_cache (app_run g thr s1 rs) = Some (m, ty, fn) \<and>
              filter scan_or_load (calls (app_run g thr s1 rs)) = calls s1 \<and>
              (\<forall>w. load_trained_model g w (app_run g thr s1 rs) =
                     (Inr (m, ty, fn), app_run g thr s1 rs)))"
proof -
  from startup_state [OF assms] obtain m ty fn where
    c: "lru_cache s1 = Some (m, ty, fn)" and
    e: "calls s1 = [Glob ''/opt/ml/model/*_xgb'', Glob ''/opt/ml/model/*_rf'',
                    Glob ''/opt/ml/model/*_kmeans'', Load fn]"
    by blast
  have f: "filter scan_or_load (calls s1) = calls s1"
    by (simp add: e)
  have "lru_cache (app_run g thr s1 rs) = Some (m, ty, fn) \<and>
        filter scan_or_load (calls (app_run g thr s1 rs)) = calls s1 \<and>
        (\<forall>w. load_trained_model g w (app_run g thr s1 rs) =
               (Inr (m, ty, fn), app_run g thr s1 rs))" for thr rs
    using app_run_keeps [OF c, of g thr rs] f by (simp add: load_cached)
  with c e show ?thesis
    by blast
qed

theorem model_loaded_once_at_startup_witness:
  "serve_startup False ex_world = Inr ex_server \<and>
   lru_cache (app_run False default_threshold ex_server
                [(empty_world, ex_request), (corrupt_world, bad_request)]) =
     Some (''/opt/ml/model/airline_xgb'', XGBoost, ''/opt/ml/model/airline_xgb'') \<and>
   filter scan_or_load
     (calls (app_run False default_threshold ex_server
               [(empty_world, ex_request), (corrupt_world, bad_request)])) =
     calls ex_server"
proof -
  from model_loaded_once_at_startup [OF ex_startup] obtain m ty fn where
    c: "lru_cache ex_server = Some (m, ty, fn)" and
    a: "\<And>thr (rs :: ((string, string, pyfloat ndarray, pyfloat ndarray) world \<times> request) list).
          lru_cache (app_run False thr ex_server rs) = Some (m, ty, fn) \<and>
          filter scan_or_load (calls (app_run False thr ex_server rs)) = calls ex_server"
    by blast
  have "m = ''/opt/ml/model/airline_xgb''" "ty = XGBoost" "fn = ''/opt/ml/model/airline_xgb''"
    using c unfolding ex_server_def by auto
  with a [of default_threshold "[(empty_world, ex_request), (corrupt_world, bad_request)]"]
    ex_startup
  show ?thesis
    by simp
qed

text \<open>
  C2, as stated, has every successfully parsed request answered with the model's own
  output. On the XGBoost host the model returns 0.75 and 0.25 and the response carries
  1.0 and 0.0: the script compares the output with the threshold first.
\<close>

theorem body_is_raw_output_counterexample:
  "parse_input ex_world ex_request = Inr (Arr [Arr [Item (Finite 1), Item (Finite 2)]]) \<and>
   model_predict ex_world ''/opt/ml/model/airline_xgb''
      (DMatrix (Arr [Arr [Item (Finite 1), Item (Finite 2)]])) =
     Inr (Arr [Item (Finite (3 / 4)), Item (Finite (1 / 4))]) \<and>
   fst (predict False default_threshold ex_world ex_request ex_server) =
     Inr (predictions_response (Arr [Item (Finite 1), Item (Finite 0)])) \<and>
   predictions_response (Arr [Item (Finite 1), Item (Finite 0)]) \<noteq>
     predictions_response (Arr [Item (Finite (3 / 4)), Item (Finite (1 / 4))])"
  by (simp add: ex_parse ex_model_predict ex_predict predictions_response_def)

text \<open>
  C2, amended: for a successfully parsed POST /invocations request served from the
  cached model, when the model's \<^verbatim>\<open>predict\<close> returns, the response body is the JSON
  of that output unchanged for a RandomForest or KMeans model (called on the query cast
  to float32). For an XGBoost model (called on the query, through a DMatrix without a
  GPU) it is the JSON of the output binarized element by element: 1.0 where the element
  is greater than \<^verbatim>\<open>xgboost_threshold\<close> converted to float32, the type of the
  predictions, and 0.0 otherwise. Every response of status 200 has one of these two
  bodies, so the script applies no other transformation to the predictions.
\<close>

theorem predict_body_is_model_output:
  assumes "parse_input w req = Inr q" and "lru_cache s = Some (m, ty, fn)"
  shows "(ty = XGBoost \<longrightarrow>
            (if g then x = Ndarray q else \<exists>d. xgboost_DMatrix w q = Inr d \<and> x = DMatrix d) \<longrightarrow>
            model_predict w m x = Inr p \<longrightarrow>
            fst (predict g thr w req s) =
              Inr (predictions_response
                    (map_ndarray (\<lambda>v. if fgt v (float32 thr) then Finite 1 else Finite 0) p))) \<and>
         (ty \<noteq> XGBoost \<longrightarrow> \<not> (contains ''gpu'' fn \<and> \<not> g) \<longrightarrow>
            astype_float32 w q = Inr q32 \<longrightarrow> model_predict w m (Ndarray q32) = Inr p \<longrightarrow>
            fst (predict g thr w req s) = Inr (predictions_response p)) \<and>
         (\<forall>r. fst (predict g thr w req s) = Inr r \<longrightarrow> status r = 200 \<longrightarrow>
            (\<exists>y out. model_predict w m y = Inr out \<and>
               response r =
                 Json_dumps
                   (if ty = XGBoost
                    then map_ndarray (\<lambda>v. if fgt v (float32 thr) then Finite 1 else Finite 0) out
                    else out))) \<and>
         (\<forall>a b. fgt (Finite a) (Finite b) = (b < a)) \<and>
         float32 (Finite (1 / 10)) = Finite (13421773 / 134217728)"
proof -
  note pc = predict_cached [OF assms, of g thr]
  have 1: "fst (predict g thr w req s) =
      Inr (predictions_response
            (map_ndarray (\<lambda>v. if fgt v (float32 thr) then Finite 1 else Finite 0) p))"
    if "ty = XGBoost"
      and "if g then x = Ndarray q else \<exists>d. xgboost_DMatrix w q = Inr d \<and> x = DMatrix d"
      and "model_predict w m x = Inr p"
  proof -
    from inference_xgb_ok [OF that(2,3), of thr fn]
    have "fst (inference g thr w m ty fn q) = Inr (times_1 (gt_array p thr))"
      using that(1) by simp
    then show ?thesis
      unfolding pc binarized [symmetric] by (cases "inference g thr w m ty fn q") simp
  qed
  have 2: "fst (predict g thr w req s) = Inr (predictions_response p)"
    if "ty \<noteq> XGBoost" and "\<not> (contains ''gpu'' fn \<and> \<not> g)"
      and "astype_float32 w q = Inr q32" and "model_predict w m (Ndarray q32) = Inr p"
  proof -
    from inference_other_ok [OF that, of thr]
    have "fst (inference g thr w m ty fn q) = Inr p" .
    then show ?thesis
      unfolding pc by (cases "inference g thr w m ty fn q") simp
  qed
  have 3: "\<exists>y out. model_predict w m y = Inr out \<and>
             response r =
               Json_dumps
                 (if ty = XGBoost
                  then map_ndarray (\<lambda>v. if fgt v (float32 thr) then Finite 1 else Finite 0) out
                  else out)"
    if r: "fst (predict g thr w req s) = Inr r" and ok: "status r = 200" for r
  proof -
    obtain res evs where i: "inference g thr w m ty fn q = (res, evs)"
      by (cases "inference g thr w m ty fn q") auto
    from r ok obtain out where res: "res = Inr out" and body: "r = predictions_response out"
      unfolding pc i by (cases res) (auto simp: inference_failure_def)
    show ?thesis
    proof (cases "ty = XGBoost")
      case True
      with i res inference_xgb [of g thr w m fn q out evs]
      obtain y raw where "model_predict w m y = Inr raw" "out = times_1 (gt_array raw thr)"
        by auto
      with True body show ?thesis
        by (auto simp: predictions_response_def binarized)
    next
      case False
      with i res inference_other [of ty g thr w m fn q out evs]
      obtain y where "model_predict w m y = Inr out"
        by auto
      with False body show ?thesis
        by (auto simp: predictions_response_def)
    qed
  qed
  from 1 2 3 float32_tenth show ?thesis
    by simp
qed

theorem predict_body_is_model_output_witness:
  "fst (predict False default_threshold ex_world ex_request ex_server) =
     Inr (predictions_response (Arr [Item (Finite 1), Item (Finite 0)])) \<and>
   fst (predict False default_threshold rf_world ex_request rf_server) =
     Inr (predictions_response (Arr [Item (Finite (3 / 4)), Item (Finite (1 / 4))])) \<and>
   fst (predict False (Finite (1 / 10)) tenth_world ex_request ex_server) =
     Inr (predictions_response (Arr [Item (Finite 0)]))"
proof -
  have c1: "lru_cache ex_server =
      Some (''/opt/ml/model/airline_xgb'', XGBoost, ''/opt/ml/model/airline_xgb'')"
    by (simp add: ex_server_def)
  have c2: "lru_cache rf_server =
      Some (''/opt/ml/model/airline_rf'', RandomForest, ''/opt/ml/model/airline_rf'')"
    by (simp add: rf_server_def)
  have d: "xgboost_DMatrix ex_world q = Inr q" for q
    by (simp add: ex_world_def)
  have dt: "xgboost_DMatrix tenth_world q = Inr q" for q
    by (simp add: tenth_world_def ex_world_def)
  have a: "astype_float32 rf_world q = Inr q" for q
    by (simp add: rf_world_def ex_world_def)
  have n: "\<not> (contains ''gpu'' ''/opt/ml/model/airline_rf'' \<and> \<not> False)"
    by simp
  from predict_body_is_model_output [OF ex_parse c1, of False
      "DMatrix (Arr [Arr [Item (Finite 1), Item (Finite 2)]])"
      "Arr [Item (Finite (3 / 4)), Item (Finite (1 / 4))]" default_threshold]
  have "fst (predict False default_threshold ex_world ex_request ex_server) =
     Inr (predictions_response (Arr [Item (Finite 1), Item (Finite 0)]))"
    by (simp add: d ex_model_predict default_threshold_def float32_half float32_of_half)
  moreover
  from predict_body_is_model_output [OF rf_parse c2, of False _
      "Arr [Item (Finite (3 / 4)), Item (Finite (1 / 4))]" default_threshold
      "Arr [Arr [Item (Finite 1), Item (Finite 2)]]"] n
  have "fst (predict False default_threshold rf_world ex_request rf_server) =
     Inr (predictions_response (Arr [Item (Finite (3 / 4)), Item (Finite (1 / 4))]))"
    by (simp add: a rf_model_predict)
  moreover
  from predict_body_is_model_output [OF tenth_parse c1, of False
      "DMatrix (Arr [Arr [Item (Finite 1), Item (Finite 2)]])"
      "Arr [Item (Finite (13421773 / 134217728))]" "Finite (1 / 10)"]
  have "fst (predict False (Finite (1 / 10)) tenth_world ex_request ex_server) =
     Inr (predictions_response (Arr [Item (Finite 0)]))"
    by (simp add: dt tenth_model_predict float32_tenth float32_of_tenth)
  ultimately show ?thesis
    by simp
qed

text \<open>
  C3, as stated, lets an exception of the parsing or of the inference leave the view
  unhandled. Both \<^verbatim>\<open>try\<close> blocks of \<^verbatim>\<open>predict\<close> catch \<^verbatim>\<open>Exception\<close>: a body that is
  not JSON is answered with the 415 response, a model whose \<^verbatim>\<open>predict\<close> raises with
  the 400 response, and in neither case does the view raise.
\<close>

theorem failure_propagates_counterexample:
  "parse_input ex_world bad_request = Inl (LibraryError ''Expecting value'') \<and>
   fst (predict False default_threshold ex_world bad_request ex_server) = Inr unable_to_parse \<and>
   fst (inference False default_threshold failing_world ''/opt/ml/model/airline_xgb'' XGBoost
          ''/opt/ml/model/airline_xgb'' (Arr [Arr [Item (Finite 1), Item (Finite 2)]])) =
     Inl (LibraryError ''feature shape mismatch'') \<and>
   fst (predict False default_threshold failing_world ex_request ex_server) =
     Inr \<lparr>response = Text (''Inference failure: feature shape mismatch'' @ [CHR 0x0A]),
          status = 400, mimetype = Some ''text/csv''\<rparr>"
  by (simp add: ex_parse_bad predict_parse_fail [OF ex_parse_bad] failing_inference
      failing_predict inference_failure_def)

text \<open>
  C3, amended: the view of /invocations turns the failures of a request into HTTP error
  responses and the process goes on serving. An exception raised while the body is
  parsed gives the 415 response and leaves the state as it is; an exception raised
  during the inference gives the 400 response with the text
  \<^verbatim>\<open>Inference failure: \<close> and the exception's message, and keeps the cached model. Only
  an exception of \<^verbatim>\<open>load_trained_model\<close>, which is called outside both \<^verbatim>\<open>try\<close> blocks,
  can leave the view, and none does once a model is cached.
\<close>

theorem failures_become_responses:
  "(parse_input w req = Inl e \<longrightarrow> predict g thr w req s = (Inr unable_to_parse, s)) \<and>
   (parse_input w req = Inr q \<longrightarrow> lru_cache s = Some (m, ty, fn) \<longrightarrow>
      fst (inference g thr w m ty fn q) = Inl e \<longrightarrow>
        fst (predict g thr w req s) = Inr (inference_failure e) \<and>
        lru_cache (snd (predict g thr w req s)) = lru_cache s) \<and>
   status unable_to_parse = 415 \<and>
   inference_failure e =
     \<lparr>response = Text (''Inference failure: '' @ str e @ [CHR 0x0A]), status = 400,
      mimetype = Some ''text/csv''\<rparr> \<and>
   (lru_cache s \<noteq> None \<longrightarrow> (\<exists>r. fst (predict g thr w req s) = Inr r))"
proof -
  have 1: "parse_input w req = Inl e \<longrightarrow> predict g thr w req s = (Inr unable_to_parse, s)"
    by (simp add: predict_parse_fail)
  have 2: "parse_input w req = Inr q \<longrightarrow> lru_cache s = Some (m, ty, fn) \<longrightarrow>
      fst (inference g thr w m ty fn q) = Inl e \<longrightarrow>
        fst (predict g thr w req s) = Inr (inference_failure e) \<and>
        lru_cache (snd (predict g thr w req s)) = lru_cache s"
    by (auto simp: predict_cached split: prod.splits sum.splits)
  have 3: "lru_cache s \<noteq> None \<longrightarrow> (\<exists>r. fst (predict g thr w req s) = Inr r)"
  proof
    assume "lru_cache s \<noteq> None"
    then obtain m' ty' fn' where c: "lru_cache s = Some (m', ty', fn')"
      by auto
    show "\<exists>r. fst (predict g thr w req s) = Inr r"
    proof (cases "parse_input w req")
      case (Inl e')
      then show ?thesis
        by (simp add: predict_parse_fail)
    next
      case (Inr q')
      then show ?thesis
        using c by (simp add: predict_cached split: prod.splits sum.splits)
    qed
  qed
  show ?thesis
    using 1 2 3 by (simp add: unable_to_parse_def inference_failure_def)
qed

theorem failures_become_responses_witness:
  "predict False default_threshold ex_world bad_request ex_server =
     (Inr unable_to_parse, ex_server) \<and>
   fst (predict False default_threshold failing_world ex_request ex_server) =
     Inr (inference_failure (LibraryError ''feature shape mismatch'')) \<and>
   lru_cache (snd (predict False default_threshold failing_world ex_request ex_server)) =
     lru_cache ex_server \<and>
   (\<exists>r. fst (predict False default_threshold failing_world ex_request ex_server) = Inr r)"
proof -
  have c: "lru_cache ex_server =
      Some (''/opt/ml/model/airline_xgb'', XGBoost, ''/opt/ml/model/airline_xgb'')"
    by (simp add: ex_server_def)
  have i: "fst (inference False default_threshold failing_world ''/opt/ml/model/airline_xgb''
             XGBoost ''/opt/ml/model/airline_xgb'' (Arr [Arr [Item (Finite 1), Item (Finite 2)]])) =
           Inl (LibraryError ''feature shape mismatch'')"
    by (simp add: failing_inference)
  from failures_become_responses [of ex_world bad_request "LibraryError ''Expecting value''"
      False default_threshold ex_server]
  have a: "predict False default_threshold ex_world bad_request ex_server =
     (Inr unable_to_parse, ex_server)"
    using ex_parse_bad by simp
  from failures_become_responses [of failing_world ex_request
      "LibraryError ''feature shape mismatch''" False default_threshold ex_server
      "Arr [Arr [Item (Finite 1), Item (Finite 2)]]" "''/opt/ml/model/airline_xgb''" XGBoost
      "''/opt/ml/model/airline_xgb''"]
  have b: "fst (predict False default_threshold failing_world ex_request ex_server) =
       Inr (inference_failure (LibraryError ''feature shape mismatch'')) \<and>
     lru_cache (snd (predict False default_threshold failing_world ex_request ex_server)) =
       lru_cache ex_server"
    using failing_parse c i by simp
  from a b show ?thesis
    by simp
qed

text \<open>
  C4, as stated, has the Flask application hold the two routes GET /ping and POST
  /invocations and no others. \<^verbatim>\<open>Flask(__name__)\<close> registers a rule for static files
  before the script adds its own, so the application has three rules, and a GET of
  \<^verbatim>\<open>/static/style.css\<close> is routed, to Flask's sender of static files; and Flask adds
  HEAD and OPTIONS to the methods of the rule for /ping.
\<close>

theorem two_routes_counterexample:
  "map rule_path (url_map serve_app) = [''/static/<path:filename>'', ''/ping'', ''/invocations''] \<and>
   length (url_map serve_app) = 3 \<and>
   dispatch serve_app static_request = Some Static_view \<and>
   map rule_methods (url_map serve_app) =
     [{''GET'', ''HEAD'', ''OPTIONS''}, {''GET'', ''HEAD'', ''OPTIONS''}, {''POST'', ''OPTIONS''}]"
  by (simp add: serve_url_map dispatch_serve_app static_request_def rule_matches_def)

text \<open>
  C4, amended: the script itself registers exactly two routes on the Flask application,
  /ping with the method GET for \<^verbatim>\<open>ping\<close> and /invocations with the method POST for
  \<^verbatim>\<open>predict\<close>, and no others: the rules of the application are the one rule for
  static files that \<^verbatim>\<open>Flask(__name__)\<close> brings, followed by these two, to whose
  methods Flask adds OPTIONS, which it answers itself, and HEAD for the GET rule. The
  view \<^verbatim>\<open>ping\<close> runs for GET and HEAD of /ping and for no other request, the view
  \<^verbatim>\<open>predict\<close> for POST of /invocations and for no other request.
\<close>

theorem routes_of_serve:
  "map (\<lambda>r. (rule_path r, rule_methods r, endpoint r)) (url_map Flask) =
     [(''/static/<path:filename>'', {''GET'', ''HEAD'', ''OPTIONS''}, Static_view)] \<and>
   url_map serve_app =
     url_map Flask @
     [\<lparr>rule_path = ''/ping'', rule_methods = {''GET'', ''HEAD'', ''OPTIONS''},
       provide_automatic_options = True, endpoint = Ping_view\<rparr>,
      \<lparr>rule_path = ''/invocations'', rule_methods = {''POST'', ''OPTIONS''},
       provide_automatic_options = True, endpoint = Predict_view\<rparr>] \<and>
   (dispatch serve_app req = Some Ping_view) =
     (req_path req = ''/ping'' \<and> (req_method req = ''GET'' \<or> req_method req = ''HEAD'')) \<and>
   (dispatch serve_app req = Some Predict_view) =
     (req_path req = ''/invocations'' \<and> req_method req = ''POST'')"
proof -
  have f: "map (\<lambda>r. (rule_path r, rule_methods r, endpoint r)) (url_map Flask) =
      [(''/static/<path:filename>'', {''GET'', ''HEAD'', ''OPTIONS''}, Static_view)]"
    by (simp add: Flask_def add_url_rule_def insert_commute)
  have u: "url_map serve_app =
     url_map Flask @
     [\<lparr>rule_path = ''/ping'', rule_methods = {''GET'', ''HEAD'', ''OPTIONS''},
       provide_automatic_options = True, endpoint = Ping_view\<rparr>,
      \<lparr>rule_path = ''/invocations'', rule_methods = {''POST'', ''OPTIONS''},
       provide_automatic_options = True, endpoint = Predict_view\<rparr>]"
    by (simp add: serve_url_map Flask_def add_url_rule_def insert_commute)
  have p: "(dispatch serve_app req = Some Ping_view) =
     (req_path req = ''/ping'' \<and> (req_method req = ''GET'' \<or> req_method req = ''HEAD''))"
    using static_not_script_paths by (auto simp: dispatch_serve_app)
  have i: "(dispatch serve_app req = Some Predict_view) =
     (req_path req = ''/invocations'' \<and> req_method req = ''POST'')"
    using static_not_script_paths by (auto simp: dispatch_serve_app)
  from f u p i show ?thesis
    by simp
qed

text \<open>
  C6: when the body of a POST /invocations request does not parse (\<^verbatim>\<open>json.loads\<close> or
  \<^verbatim>\<open>numpy.array\<close> raises), the view returns status 415 with the fixed text, and the
  state of the server is the one before the request: the cache is not touched and no
  scan, load or \<^verbatim>\<open>predict\<close> is added to the calls.
\<close>

theorem parse_failure_415:
  assumes "parse_input w req = Inl e"
  shows "predict g thr w req s = (Inr unable_to_parse, s) \<and>
         status unable_to_parse = 415 \<and>
         response unable_to_parse =
           Text ''Unable to parse input data[ should be json/string encoded list of arrays ]''"
  using assms by (simp add: predict_parse_fail unable_to_parse_def)

theorem parse_failure_415_witness:
  "parse_input empty_world bad_request = Inl (LibraryError ''Expecting value'') \<and>
   predict True default_threshold empty_world bad_request fresh = (Inr unable_to_parse, fresh) \<and>
   status unable_to_parse = 415"
proof -
  have p: "parse_input empty_world bad_request = Inl (LibraryError ''Expecting value'')"
    by (simp add: parse_input_def empty_world_def ex_world_def bad_request_def lib_def)
  from parse_failure_415 [OF p, of True default_threshold fresh] p show ?thesis
    by simp
qed

subsection \<open>The choice of the model file\<close>

lemma body_xgb:
  "glob w ''/opt/ml/model/*_xgb'' = f # fs \<Longrightarrow>
   fst (load_trained_model_body g w) =
     (case (if g then ForestInference_load w f else Booster_load_model w f) of
        Inl msg \<Rightarrow> Inl (LibraryError msg) | Inr model \<Rightarrow> Inr (model, XGBoost, f))"
  by (simp add: load_trained_model_body_def lib_def split: sum.splits)

lemma body_rf:
  "glob w ''/opt/ml/model/*_xgb'' = [] \<Longrightarrow> glob w ''/opt/ml/model/*_rf'' = f # fs \<Longrightarrow>
   fst (load_trained_model_body g w) =
     (case joblib_load w f of
        Inl msg \<Rightarrow> Inl (LibraryError msg) | Inr model \<Rightarrow> Inr (model, RandomForest, f))"
  by (simp add: load_trained_model_body_def lib_def split: sum.splits)

lemma body_kmeans:
  "glob w ''/opt/ml/model/*_xgb'' = [] \<Longrightarrow> glob w ''/opt/ml/model/*_rf'' = [] \<Longrightarrow>
   glob w ''/opt/ml/model/*_kmeans'' = f # fs \<Longrightarrow>
   fst (load_trained_model_body g w) =
     (case joblib_load w f of
        Inl msg \<Rightarrow> Inl (LibraryError msg) | Inr model \<Rightarrow> Inr (model, KMeans, f))"
  by (simp add: load_trained_model_body_def lib_def split: sum.splits)

lemma body_none:
  "glob w ''/opt/ml/model/*_xgb'' = [] \<Longrightarrow> glob w ''/opt/ml/model/*_rf'' = [] \<Longrightarrow>
   glob w ''/opt/ml/model/*_kmeans'' = [] \<Longrightarrow>
   fst (load_trained_model_body g w) = Inl (Exception ''! No trained models detected'')"
  by (simp add: load_trained_model_body_def)

lemma library_error_is_not_own:
  "(case r of Inl msg \<Rightarrow> Inl (LibraryError msg) | Inr model \<Rightarrow> Inr (h model)) \<noteq>
   Inl (Exception m)"
  by (cases r) simp_all

lemma body_raises_own:
  "(fst (load_trained_model_body g w) = Inl (Exception ''! No trained models detected'')) =
   (glob w ''/opt/ml/model/*_xgb'' = [] \<and> glob w ''/opt/ml/model/*_rf'' = [] \<and>
    glob w ''/opt/ml/model/*_kmeans'' = [])"
proof (cases "glob w ''/opt/ml/model/*_xgb''")
  case (Cons f fs)
  then show ?thesis
    by (simp only: body_xgb [OF Cons] library_error_is_not_own) simp
next
  case x: Nil
  show ?thesis
  proof (cases "glob w ''/opt/ml/model/*_rf''")
    case (Cons f fs)
    then show ?thesis
      by (simp only: body_rf [OF x Cons] library_error_is_not_own) simp
  next
    case r: Nil
    show ?thesis
    proof (cases "glob w ''/opt/ml/model/*_kmeans''")
      case (Cons f fs)
      then show ?thesis
        by (simp only: body_kmeans [OF x r Cons] library_error_is_not_own) simp
    next
      case Nil
      with x r show ?thesis
        by (simp add: body_none)
    qed
  qed
qed

text \<open>
  C7, as stated, has \<^verbatim>\<open>load_trained_model\<close> raise exactly when no file matches. On
  the host whose only model file xgboost cannot read, a file matches
  \<^verbatim>\<open>/opt/ml/model/*_xgb\<close> and the call raises all the same: the loader's exception is
  not caught.
\<close>

theorem raises_only_without_file_counterexample:
  "glob corrupt_world ''/opt/ml/model/*_xgb'' = [''/opt/ml/model/airline_xgb''] \<and>
   fst (load_trained_model False corrupt_world fresh) = Inl (LibraryError ''not a model file'')"
proof -
  have g: "glob corrupt_world ''/opt/ml/model/*_xgb'' = [''/opt/ml/model/airline_xgb'']"
    by (simp add: corrupt_world_def ex_world_def)
  have b: "fst (load_trained_model_body False corrupt_world) =
      Inl (LibraryError ''not a model file'')"
    using body_xgb [OF g, of False] by (simp add: corrupt_world_def ex_world_def)
  have "fst (load_trained_model False corrupt_world fresh) =
      fst (load_trained_model_body False corrupt_world)"
    by (rule load_miss) (simp add: fresh_def)
  with g b show ?thesis
    by simp
qed

text \<open>
  C7, amended: on a cache miss \<^verbatim>\<open>load_trained_model\<close> selects the model by a fixed
  precedence. If a file matches \<^verbatim>\<open>/opt/ml/model/*_xgb\<close> the first such file is loaded
  as XGBoost (by \<^verbatim>\<open>ForestInference.load\<close> with a GPU, by \<^verbatim>\<open>Booster.load_model\<close>
  without); otherwise, if a file matches \<^verbatim>\<open>*_rf\<close>, the first is loaded by joblib as
  RandomForest; otherwise, if a file matches \<^verbatim>\<open>*_kmeans\<close>, the first is loaded by
  joblib as KMeans. The result is the triple of the loaded model, its type and that file
  name, or the exception of the one loader that was called. The function raises its own
  exception, "! No trained models detected", exactly when no file matches any of the
  three patterns.
\<close>

theorem load_precedence:
  assumes "lru_cache s = None"
  shows "(glob w ''/opt/ml/model/*_xgb'' = f # fs \<longrightarrow>
       fst (load_trained_model g w s) =
         (case (if g then ForestInference_load w f else Booster_load_model w f) of
            Inl msg \<Rightarrow> Inl (LibraryError msg) | Inr model \<Rightarrow> Inr (model, XGBoost, f))) \<and>
     (glob w ''/opt/ml/model/*_xgb'' = [] \<longrightarrow> glob w ''/opt/ml/model/*_rf'' = f # fs \<longrightarrow>
       fst (load_trained_model g w s) =
         (case joblib_load w f of
            Inl msg \<Rightarrow> Inl (LibraryError msg) | Inr model \<Rightarrow> Inr (model, RandomForest, f))) \<and>
     (glob w ''/opt/ml/model/*_xgb'' = [] \<longrightarrow> glob w ''/opt/ml/model/*_rf'' = [] \<longrightarrow>
      glob w ''/opt/ml/model/*_kmeans'' = f # fs \<longrightarrow>
       fst (load_trained_model g w s) =
         (case joblib_load w f of
            Inl msg \<Rightarrow> Inl (LibraryError msg) | Inr model \<Rightarrow> Inr (model, KMeans, f))) \<and>
     ((fst (load_trained_model g w s) = Inl (Exception ''! No trained models detected'')) =
      (glob w ''/opt/ml/model/*_xgb'' = [] \<and> glob w ''/opt/ml/model/*_rf'' = [] \<and>
       glob w ''/opt/ml/model/*_kmeans'' = []))"
  unfolding load_miss [OF assms]
  using body_xgb [of w f fs g] body_rf [of w f fs g] body_kmeans [of w f fs g]
    body_raises_own [of g w]
  by blast

theorem load_precedence_witness:
  "fst (load_trained_model False ex_world fresh) =
     Inr (''/opt/ml/model/airline_xgb'', XGBoost, ''/opt/ml/model/airline_xgb'') \<and>
   fst (load_trained_model False rf_world fresh) =
     Inr (''/opt/ml/model/airline_rf'', RandomForest, ''/opt/ml/model/airline_rf'') \<and>
   fst (load_trained_model False kmeans_world fresh) =
     Inr (''/opt/ml/model/a_kmeans'', KMeans, ''/opt/ml/model/a_kmeans'') \<and>
   fst (load_trained_model False empty_world fresh) =
     Inl (Exception ''! No trained models detected'')"
proof -
  have n: "lru_cache (fresh :: string server) = None"
    by (simp add: fresh_def)
  have 1: "fst (load_trained_model False ex_world fresh) =
     Inr (''/opt/ml/model/airline_xgb'', XGBoost, ''/opt/ml/model/airline_xgb'')"
    using load_precedence [OF n, of ex_world "''/opt/ml/model/airline_xgb''" "[]" False]
    by (simp add: ex_world_def)
  have 2: "fst (load_trained_model False rf_world fresh) =
     Inr (''/opt/ml/model/airline_rf'', RandomForest, ''/opt/ml/model/airline_rf'')"
    using load_precedence [OF n, of rf_world "''/opt/ml/model/airline_rf''" "[]" False]
    by (simp add: rf_world_def ex_world_def)
  have 3: "fst (load_trained_model False kmeans_world fresh) =
     Inr (''/opt/ml/model/a_kmeans'', KMeans, ''/opt/ml/model/a_kmeans'')"
    using load_precedence [OF n, of kmeans_world "''/opt/ml/model/a_kmeans''" "[]" False]
    by (simp add: kmeans_world_def ex_world_def)
  have 4: "fst (load_trained_model False empty_world fresh) =
     Inl (Exception ''! No trained models detected'')"
    using load_precedence [OF n, of empty_world "''x''" "[]" False]
    by (simp add: empty_world_def ex_world_def)
  from 1 2 3 4 show ?thesis
    by simp
qed

text \<open>
  C8: when the loaded model is an XGBoost model, the body of every response of status
  200 to POST /invocations is the JSON of the model's output binarized element by
  element, 1.0 where the element is greater than \<^verbatim>\<open>xgboost_threshold\<close> (as numpy
  compares a float32 array with it: converted to float32) and 0.0 otherwise, so each of
  its elements is 0.0 or 1.0. Two finite values compare as numbers, and the threshold
  that \<^verbatim>\<open>serve()\<close> runs with, 0.5, is itself a float32.
\<close>

theorem xgboost_predictions_binary:
  assumes "predict g thr w req s = (Inr r, s')" and "status r = 200"
    and "lru_cache s' = Some (m, XGBoost, fn)"
  shows "(\<exists>x raw. model_predict w m x = Inr raw \<and>
           response r =
             Json_dumps (map_ndarray (\<lambda>v. if fgt v (float32 thr) then Finite 1 else Finite 0) raw) \<and>
           (\<forall>v \<in> set_ndarray
                   (map_ndarray (\<lambda>v. if fgt v (float32 thr) then Finite 1 else Finite 0) raw).
               v = Finite 0 \<or> v = Finite 1)) \<and>
         (\<forall>a b. fgt (Finite a) (Finite b) = (b < a)) \<and>
         float32 default_threshold = Finite (1 / 2)"
proof -
  from predict_200 [OF assms(1,2)] obtain q m' ty fn' p evs s1 where
    l: "load_trained_model g w s = (Inr (m', ty, fn'), s1)"
    and i: "inference g thr w m' ty fn' q = (Inr p, evs)"
    and r: "r = predictions_response p" and s': "s' = s1\<lparr>calls := calls s1 @ evs\<rparr>"
    by blast
  from load_result_cached [OF l] s' assms(3) have "m' = m" "ty = XGBoost" "fn' = fn"
    by simp_all
  with i have "inference g thr w m XGBoost fn q = (Inr p, evs)"
    by simp
  from inference_xgb [OF this] obtain x raw
    where "model_predict w m x = Inr raw" "p = times_1 (gt_array raw thr)"
    by blast
  then have "\<exists>x raw. model_predict w m x = Inr raw \<and>
           response r =
             Json_dumps (map_ndarray (\<lambda>v. if fgt v (float32 thr) then Finite 1 else Finite 0) raw) \<and>
           (\<forall>v \<in> set_ndarray
                   (map_ndarray (\<lambda>v. if fgt v (float32 thr) then Finite 1 else Finite 0) raw).
               v = Finite 0 \<or> v = Finite 1)"
    using r by (auto simp: predictions_response_def binarized ndarray.set_map)
  then show ?thesis
    by (simp add: default_threshold_def float32_half float32_of_half)
qed

theorem xgboost_predictions_binary_witness:
  "predict False default_threshold ex_world ex_request ex_server =
     (Inr (predictions_response (Arr [Item (Finite 1), Item (Finite 0)])),
      ex_server\<lparr>calls := calls ex_server @ [Predict ''/opt/ml/model/airline_xgb'']\<rparr>) \<and>
   (\<exists>x raw. model_predict ex_world ''/opt/ml/model/airline_xgb'' x = Inr raw \<and>
      response (predictions_response (Arr [Item (Finite 1), Item (Finite 0)])) =
        Json_dumps
          (map_ndarray (\<lambda>v. if fgt v (float32 default_threshold) then Finite 1 else Finite 0) raw)) \<and>
   predict False (Finite (1 / 10)) tenth_world ex_request ex_server =
     (Inr (predictions_response (Arr [Item (Finite 0)])),
      ex_server\<lparr>calls := calls ex_server @ [Predict ''/opt/ml/model/airline_xgb'']\<rparr>) \<and>
   (\<exists>x raw. model_predict tenth_world ''/opt/ml/model/airline_xgb'' x = Inr raw \<and>
      response (predictions_response (Arr [Item (Finite 0)])) =
        Json_dumps
          (map_ndarray (\<lambda>v. if fgt v (float32 (Finite (1 / 10))) then Finite 1 else Finite 0) raw))"
proof -
  have ok: "status (predictions_response p) = 200" for p
    by (simp add: predictions_response_def)
  have c: "lru_cache (ex_server\<lparr>calls := calls ex_server @ [Predict ''/opt/ml/model/airline_xgb'']\<rparr>) =
      Some (''/opt/ml/model/airline_xgb'', XGBoost, ''/opt/ml/model/airline_xgb'')"
    by (simp add: ex_server_def)
  from xgboost_predictions_binary [OF ex_predict ok c]
    xgboost_predictions_binary [OF tenth_predict ok c] ex_predict tenth_predict
  show ?thesis
    by blast
qed

section \<open>Properties of the Sphinx configuration\<close>

lemma bundles_differ: "stable_bundle \<noteq> nightly_bundle"
  by (simp add: stable_bundle_def nightly_bundle_def stable_version_def nightly_version_def)

lemma selected_stable:
  "environ ''DEPLOYMENT_DOCS_BUILD_STABLE'' = Some ''true'' \<Longrightarrow>
   selected_version environ = Some stable_bundle"
  by (simp add: selected_version_def environ_get_def versions_def)

lemma selected_nightly:
  "environ ''DEPLOYMENT_DOCS_BUILD_STABLE'' \<noteq> Some ''true'' \<Longrightarrow>
   selected_version environ = Some nightly_bundle"
  by (cases "environ ''DEPLOYMENT_DOCS_BUILD_STABLE''")
    (simp_all add: selected_version_def environ_get_def versions_def)

lemma stable_lists:
  "map_option (\<lambda>b. map_of b ''rapids_version'') (add_lists stable_bundle) =
     Some (Some (Str ''25.06''))"
  by (simp add: add_lists_def stable_bundle_def stable_version_def)

lemma nightly_lists:
  "map_option (\<lambda>b. map_of b ''rapids_version'') (add_lists nightly_bundle) =
     Some (Some (Str ''25.08''))"
  by (simp add: add_lists_def nightly_bundle_def nightly_version_def)

text \<open>
  C9: the configuration takes the stable bundle if and only if the environment variable
  DEPLOYMENT_DOCS_BUILD_STABLE is the string \<^verbatim>\<open>true\<close>, and the nightly bundle for every
  other value and when the variable is not set; the two bundles differ, and the version
  that \<^verbatim>\<open>rapids_version\<close> then carries is 25.06 in the first case and 25.08 in the
  second.
\<close>

theorem stable_iff_true:
  "(selected_version environ = Some stable_bundle) =
     (environ ''DEPLOYMENT_DOCS_BUILD_STABLE'' = Some ''true'') \<and>
   (selected_version environ = Some nightly_bundle) =
     (environ ''DEPLOYMENT_DOCS_BUILD_STABLE'' \<noteq> Some ''true'') \<and>
   map_option (\<lambda>b. map_of b ''rapids_version'') (rapids_version environ) =
     Some (Some (Str (if environ ''DEPLOYMENT_DOCS_BUILD_STABLE'' = Some ''true''
                      then ''25.06'' else ''25.08'')))"
proof (cases "environ ''DEPLOYMENT_DOCS_BUILD_STABLE'' = Some ''true''")
  case True
  from selected_stable [of environ] True bundles_differ stable_lists show ?thesis
    by (simp add: rapids_version_def)
next
  case False
  from selected_nightly [of environ] False bundles_differ nightly_lists show ?thesis
    by (simp add: rapids_version_def)
qed

section \<open>Properties of the release checklist\<close>

subsection \<open>Names and suffixes\<close>

lemma rfind_None: "(rfind c xs = None) = (c \<notin> set xs)"
  by (induction xs) (auto split: option.splits)

lemma rfind_append:
  "rfind c (xs @ ys) =
     (case rfind c ys of Some i \<Rightarrow> Some (length xs + i) | None \<Rightarrow> rfind c xs)"
  by (induction xs) (auto split: option.splits)

lemma rfind_less: "rfind c xs = Some i \<Longrightarrow> i < length xs"
  by (induction xs arbitrary: i) (auto split: option.splits if_splits)

lemma suffix_ends_with:
  assumes "suffix nm = ext" and "ext \<noteq> []"
  shows "ends_with ext nm"
proof -
  from assms obtain i where i: "rfind CHR ''.'' nm = Some i" "0 < i" "i < length nm - 1"
    and ext: "ext = drop i nm"
    by (auto simp: suffix_def split: option.splits if_splits)
  from i have "length nm - length ext = i" "length ext < length nm"
    by (auto simp: ext)
  then show ?thesis
    by (simp add: ends_with_def ext)
qed

lemma ends_with_suffix:
  assumes "ends_with (CHR ''.'' # r) nm" and "r \<noteq> []" and "CHR ''.'' \<notin> set r"
  shows "suffix nm = CHR ''.'' # r"
proof -
  define stem where "stem = take (length nm - length (CHR ''.'' # r)) nm"
  from assms(1) have nm: "nm = stem @ CHR ''.'' # r" and s: "stem \<noteq> []"
    unfolding ends_with_def stem_def
    by (metis append_take_drop_id, auto)
  have "rfind CHR ''.'' (CHR ''.'' # r) = Some 0"
    using assms(3) by (simp add: rfind_None [THEN iffD2])
  then have "rfind CHR ''.'' nm = Some (length stem)"
    by (simp add: nm rfind_append)
  then show ?thesis
    using s assms(2) by (simp add: suffix_def nm)
qed

lemma suffix_md: "(suffix nm = ''.md'') = ends_with ''.md'' nm"
  using suffix_ends_with [of nm "''.md''"] ends_with_suffix [of "''md''" nm]
  by auto

lemma suffix_ipynb: "(suffix nm = ''.ipynb'') = ends_with ''.ipynb'' nm"
  using suffix_ends_with [of nm "''.ipynb''"] ends_with_suffix [of "''ipynb''" nm]
  by auto

lemma join_parts_snoc: "ns \<noteq> [] \<Longrightarrow> join_parts (ns @ [x]) = join_parts ns @ ''/'' @ x"
  by (induction ns rule: join_parts.induct) auto

lemma join_parts_not_dot:
  assumes "ns \<noteq> []" and "last ns = []"
  shows "join_parts ns \<noteq> ''.''"
proof (cases "butlast ns = []")
  case True
  with assms have "ns = [[]]"
    by (metis append_butlast_last_id append_Nil)
  then show ?thesis
    by simp
next
  case False
  from assms have "ns = butlast ns @ [[]]"
    by (metis append_butlast_last_id)
  with join_parts_snoc [OF False, of "[]"] have "join_parts ns = join_parts (butlast ns) @ ''/''"
    by simp
  then show ?thesis
    by (cases "join_parts (butlast ns)") auto
qed

subsection \<open>One file\<close>

lemma path_name_joinpath:
  "rel_names \<noteq> [] \<Longrightarrow> path_name (joinpath source rel_names) = last rel_names"
  by (simp add: path_name_def joinpath_def)

lemma set_parts_joinpath:
  "x \<noteq> ''/'' \<Longrightarrow> rel_names \<noteq> [] \<Longrightarrow>
   (x \<in> set (parts (joinpath source rel_names))) =
   (x \<in> set (names source @ butlast rel_names) \<or> x = last rel_names)"
proof -
  assume x: "x \<noteq> ''/''" and r: "rel_names \<noteq> []"
  have "set rel_names = insert (last rel_names) (set (butlast rel_names))"
    using r by (metis append_butlast_last_id list.simps(15) rotate1.simps(2) set_rotate1)
  then show ?thesis
    using x by (auto simp: parts_def joinpath_def)
qed

lemma not_page_names:
  "\<not> ends_with ''.md'' ''_includes''" "\<not> ends_with ''.ipynb'' ''_includes''"
  "\<not> ends_with ''.md'' ''.ipynb_checkpoints''" "\<not> ends_with ''.ipynb'' ''.ipynb_checkpoints''"
  "\<not> ends_with ''.ipynb'' ''index.md''" "ends_with ''.md'' ''index.md''"
  by (simp_all add: ends_with_def)

lemma md_not_ipynb: "ends_with ''.md'' nm \<Longrightarrow> \<not> ends_with ''.ipynb'' nm"
  using suffix_md [of nm] suffix_ipynb [of nm] by auto

lemma suffix_source: "suffix ''source'' = []"
  by (simp add: suffix_def)

lemma filters_checklist_file:
  assumes "names source \<noteq> []" and "last (names source) = ''source''"
  shows "(is_file e \<and> suffix (path_name (joinpath source (rel e))) \<in> set [''.ipynb'', ''.md''] \<and>
          ''_includes'' \<notin> set (parts (joinpath source (rel e))) \<and>
          ''.ipynb_checkpoints'' \<notin> set (parts (joinpath source (rel e)))) =
         checklist_file source e"
proof (cases "rel e = []")
  case True
  then have "path_name (joinpath source (rel e)) = ''source''"
    using assms by (simp add: path_name_def joinpath_def)
  then show ?thesis
    using True by (simp add: suffix_source checklist_file_def)
next
  case False
  note n = path_name_joinpath [OF False, of source]
  have i: "(''_includes'' \<in> set (parts (joinpath source (rel e)))) =
      (''_includes'' \<in> set (names source @ butlast (rel e)) \<or> ''_includes'' = last (rel e))"
    by (rule set_parts_joinpath [OF _ False]) simp
  have c: "(''.ipynb_checkpoints'' \<in> set (parts (joinpath source (rel e)))) =
      (''.ipynb_checkpoints'' \<in> set (names source @ butlast (rel e)) \<or>
       ''.ipynb_checkpoints'' = last (rel e))"
    by (rule set_parts_joinpath [OF _ False]) simp
  show ?thesis
    unfolding n i c checklist_file_def
    using False not_page_names(1-4) by (auto simp: suffix_md suffix_ipynb)
qed

lemma index_in_parts:
  assumes "rel e \<noteq> []" and "''index.md'' \<notin> set (names source @ butlast (rel e))"
  shows "(''index.md'' \<in> set (parts (joinpath source (rel e)))) = (last (rel e) = ''index.md'')"
  using set_parts_joinpath [of "''index.md''" "rel e" source] assms by auto

lemma relative_to_joinpath:
  "relative_to (joinpath source ns) source = Inr \<lparr>absolute = False, names = ns\<rparr>"
  by (simp add: relative_to_def joinpath_def)

lemma parent_joinpath:
  "ns \<noteq> [] \<Longrightarrow> parent (joinpath source ns) = joinpath source (butlast ns)"
  by (simp add: parent_def joinpath_def butlast_append)

lemma rel_string_dir:
  assumes "ds = [] \<or> suffix (last ds) = []"
  shows "rel_string \<lparr>absolute = False, names = ds\<rparr> = join_parts ds"
proof (cases "ds = []")
  case True
  then show ?thesis
    by (simp add: rel_string_def path_name_def str_path_def)
next
  case False
  with assms have s: "suffix (last ds) = []"
    by simp
  show ?thesis
  proof (cases "last ds = []")
    case True
    with False join_parts_not_dot [of ds] show ?thesis
      by (simp add: rel_string_def path_name_def str_path_def)
  next
    case nonempty: False
    have "butlast ds @ [last ds] = ds"
      using False by simp
    with False nonempty s show ?thesis
      by (simp add: rel_string_def path_name_def str_path_def with_suffix_empty_def Let_def)
  qed
qed

lemma rel_string_file:
  assumes "ns \<noteq> []" and "suffix (last ns) = ext" and "ext \<noteq> []"
  shows "rel_string \<lparr>absolute = False, names = ns\<rparr> =
           join_parts (butlast ns @ [take (length (last ns) - length ext) (last ns)])"
proof -
  from assms have "last ns \<noteq> []"
    by (auto simp: suffix_def)
  with assms show ?thesis
    by (simp add: rel_string_def path_name_def str_path_def with_suffix_empty_def Let_def)
qed

lemma url_of_plain_path:
  assumes "checklist_file source e" and "plain_path source e"
  shows "nightly_url @
           rel_string \<lparr>absolute = False,
             names = (if ''index.md'' \<in> set (parts (joinpath source (rel e)))
                      then butlast (rel e) else rel e)\<rparr> = spec_url e"
proof -
  from assms(1) have r: "rel e \<noteq> []"
    and ext: "ends_with ''.md'' (last (rel e)) \<or> ends_with ''.ipynb'' (last (rel e))"
    by (auto simp: checklist_file_def)
  from assms(2) have p: "''index.md'' \<notin> set (names source @ butlast (rel e))"
    and d: "butlast (rel e) = [] \<or> last (rel e) \<noteq> ''index.md'' \<or>
            suffix (last (butlast (rel e))) = []"
    by (auto simp: plain_path_def)
  note i = index_in_parts [OF r p]
  show ?thesis
  proof (cases "last (rel e) = ''index.md''")
    case True
    with d have "butlast (rel e) = [] \<or> suffix (last (butlast (rel e))) = []"
      by auto
    from rel_string_dir [OF this] True show ?thesis
      by (simp add: i spec_url_def)
  next
    case False
    show ?thesis
    proof (cases "ends_with ''.md'' (last (rel e))")
      case True
      then have "suffix (last (rel e)) = ''.md''"
        by (simp add: suffix_md)
      from rel_string_file [OF r this] True False show ?thesis
        by (simp add: i spec_url_def eval_nat_numeral)
    next
      case notmd: False
      with ext have "suffix (last (rel e)) = ''.ipynb''"
        by (simp add: suffix_ipynb)
      from rel_string_file [OF r this] notmd False show ?thesis
        by (simp add: i spec_url_def eval_nat_numeral)
    qed
  qed
qed

lemma file_info_of_spec:
  assumes "checklist_file source e" and "plain_path source e"
  shows "file_info_of source e =
    (if ends_with ''.md'' (last (rel e)) then
       (case frontmatter_load e of
          Inl msg \<Rightarrow> Inl (LoadError msg)
        | Inr metadata \<Rightarrow> Inr (spec_page source e))
     else Inr (spec_page source e))"
proof -
  from assms(1) have r: "rel e \<noteq> []"
    by (auto simp: checklist_file_def)
  have rt: "relative_to (if ''index.md'' \<in> set (parts (joinpath source (rel e)))
                         then parent (joinpath source (rel e)) else joinpath source (rel e)) source =
            Inr \<lparr>absolute = False,
                 names = (if ''index.md'' \<in> set (parts (joinpath source (rel e)))
                          then butlast (rel e) else rel e)\<rparr>"
    by (simp add: parent_joinpath [OF r] relative_to_joinpath)
  have u1: "nightly_url @ rel_string \<lparr>absolute = False, names = butlast (rel e)\<rparr> = spec_url e"
    if "''index.md'' \<in> set (parts (joinpath source (rel e)))"
    using url_of_plain_path [OF assms] that by simp
  have u2: "nightly_url @ rel_string \<lparr>absolute = False, names = rel e\<rparr> = spec_url e"
    if "''index.md'' \<notin> set (parts (joinpath source (rel e)))"
    using url_of_plain_path [OF assms] that by simp
  show ?thesis
    unfolding file_info_of_def Let_def rt path_name_joinpath [OF r] suffix_md
    by (simp add: u1 u2 spec_page_def spec_priority_def split: sum.splits option.splits)
qed

subsection \<open>The loop\<close>

lemma walk_Cons:
  assumes "names source \<noteq> []" and "last (names source) = ''source''"
  shows "walk source (e # es) pl =
    (if checklist_file source e then
       (case file_info_of source e of
          Inl err \<Rightarrow> Inl err
        | Inr file_info \<Rightarrow>
            if priority file_info \<in> set (map fst pl)
            then walk source es (append_page file_info pl)
            else Inl (unknown_priority (priority file_info) (page_file file_info)))
     else walk source es pl)"
proof (cases "checklist_file source e")
  case True
  with filters_checklist_file [OF assms, of e] show ?thesis
    by simp
next
  case False
  with filters_checklist_file [OF assms, of e] show ?thesis
    by auto
qed

lemma keys_append_page: "map fst (append_page file_info pl) = map fst pl"
  by (induction pl) (auto simp: append_page_def)

lemma spec_priority_notebook:
  "\<not> ends_with ''.md'' (last (rel e)) \<Longrightarrow> spec_priority e = ''p2''"
  by (simp add: spec_priority_def)

lemma append_then_rest:
  "map (\<lambda>(k, d). (k, d\<lparr>pages := pages d @ map (spec_page source) (filter (\<lambda>e. Q e \<and> spec_priority e = k) es)\<rparr>))
       (append_page (spec_page source e) pl) =
   map (\<lambda>(k, d). (k, d\<lparr>pages := pages d @ map (spec_page source)
                        (filter (\<lambda>e. Q e \<and> spec_priority e = k) (e # es))\<rparr>)) pl"
  if "Q e"
  using that by (induction pl) (auto simp: append_page_def spec_page_def)

lemma walk_spec:
  assumes "names source \<noteq> []" and "last (names source) = ''source''"
    and "\<forall>e \<in> set tree. checklist_file source e \<longrightarrow> plain_path source e"
    and "map fst pl = [''index'', ''p0'', ''p1'', ''p2'']"
  shows "walk source tree pl =
    (case List.map_filter (entry_failure source) tree of
       err # _ \<Rightarrow> Inl err
     | [] \<Rightarrow>
         Inr (map (\<lambda>(k, d). (k, d\<lparr>pages := pages d @ map (spec_page source)
                (filter (\<lambda>e. checklist_file source e \<and> spec_priority e = k) tree)\<rparr>)) pl))"
  using assms(3,4)
proof (induction tree arbitrary: pl)
  case Nil
  have "map (\<lambda>(k, d). (k, d\<lparr>pages := pages d @ []\<rparr>)) pl = pl"
    by (induction pl) auto
  then show ?case
    by (simp add: List.map_filter_simps)
next
  case (Cons e es)
  note wc = walk_Cons [OF assms(1,2), of e es pl]
  from Cons.prems have rest: "\<forall>e \<in> set es. checklist_file source e \<longrightarrow> plain_path source e"
    by simp
  show ?case
  proof (cases "checklist_file source e")
    case False
    then have "entry_failure source e = None"
      by (simp add: entry_failure_def)
    with False Cons.IH [OF rest Cons.prems(2)] show ?thesis
      by (simp add: wc List.map_filter_simps del: walk.simps split: list.splits)
  next
    case True
    with Cons.prems have "plain_path source e"
      by simp
    note fi = file_info_of_spec [OF True this]
    have "set (map fst pl) = {''index'', ''p0'', ''p1'', ''p2''}"
      by (simp only: Cons.prems(2)) simp
    then have keys: "fst ` set pl = {''index'', ''p0'', ''p1'', ''p2''}"
      by simp
    consider
      (load) msg where "ends_with ''.md'' (last (rel e))" "frontmatter_load e = Inl msg"
      | (unknown) "ends_with ''.md'' (last (rel e))" "\<exists>md. frontmatter_load e = Inr md"
          "spec_priority e \<notin> {''index'', ''p0'', ''p1'', ''p2''}"
      | (good) "file_info_of source e = Inr (spec_page source e)"
          "spec_priority e \<in> {''index'', ''p0'', ''p1'', ''p2''}"
          "entry_failure source e = None"
    proof (cases "ends_with ''.md'' (last (rel e))")
      case notebook: False
      then have "spec_priority e = ''p2''"
        by (rule spec_priority_notebook)
      with notebook True fi show ?thesis
        by (intro that(3)) (simp_all add: entry_failure_def)
    next
      case md: True
      show ?thesis
      proof (cases "frontmatter_load e")
        case (Inl msg)
        with md show ?thesis
          by (rule that(1))
      next
        case (Inr metadata)
        show ?thesis
        proof (cases "spec_priority e \<in> {''index'', ''p0'', ''p1'', ''p2''}")
          case False
          with md Inr show ?thesis
            by (intro that(2)) auto
        next
          case ok: True
          with md Inr True fi show ?thesis
            by (intro that(3)) (simp_all add: entry_failure_def)
        qed
      qed
    qed
    then show ?thesis
    proof cases
      case load
      with True fi show ?thesis
        by (simp add: wc entry_failure_def List.map_filter_simps del: walk.simps)
    next
      case unknown
      then obtain md where md: "frontmatter_load e = Inr md"
        by blast
      have p: "priority (spec_page source e) = spec_priority e"
        "page_file (spec_page source e) = joinpath source (rel e)"
        by (simp_all add: spec_page_def)
      from unknown md True fi show ?thesis
        by (simp add: wc entry_failure_def List.map_filter_simps keys p del: walk.simps)
    next
      case good
      have p: "priority (spec_page source e) = spec_priority e"
        by (simp add: spec_page_def)
      have k: "map fst (append_page (spec_page source e) pl) = [''index'', ''p0'', ''p1'', ''p2'']"
        by (simp add: keys_append_page Cons.prems(2))
      have w: "walk source (e # es) pl = walk source es (append_page (spec_page source e) pl)"
        using good(1,2) True by (simp add: wc keys p del: walk.simps)
      show ?thesis
        unfolding w Cons.IH [OF rest k]
        using good(3) append_then_rest [of "checklist_file source" e source es pl, OF True]
        by (simp add: List.map_filter_simps split: list.splits)
    qed
  qed
qed

subsection \<open>The printed groups\<close>

lemma map_insort_key: "map f (insort_key f x xs) = insort (f x) (map f xs)"
  by (induction xs) auto

lemma map_sort_key: "map f (sort_key f xs) = sort (map f xs)"
  by (induction xs) (auto simp: map_insort_key)

lemma sort_Nil_iff: "(sort_key f xs = []) = (xs = [])"
  by (metis length_sort length_0_conv)

lemma print_section_spec:
  "print_section \<lparr>name = title, pages = map (spec_page source)
      (filter (\<lambda>e. checklist_file source e \<and> spec_priority e = key) tree)\<rparr> =
   spec_group source tree key title"
proof -
  have u: "url \<circ> spec_page source = spec_url"
    by (auto simp: spec_page_def)
  have "map (\<lambda>pg. ''- [ ] '' @ url pg) (sort_key url ps) =
        map (\<lambda>u. ''- [ ] '' @ u) (sort (map url ps))" for ps :: "page list"
    using map_sort_key [of url ps, symmetric] by (simp add: comp_def)
  then show ?thesis
    by (simp add: print_section_def spec_group_def Let_def u sort_Nil_iff)
qed

lemma source_dir_names:
  "names (source_dir script_name) \<noteq> []" "last (names (source_dir script_name)) = ''source''"
  by (simp_all add: source_dir_def joinpath_def)

subsection \<open>The example trees, evaluated\<close>

lemma ex_source: "source_dir ex_script = \<lparr>absolute = True, names = [''repo'', ''source'']\<rparr>"
  by (simp add: source_dir_def ex_script_def parent_def joinpath_def)

lemma ex_footer:
  "footer ex_script = ''_Issue text generated by scripts/gen_release_checklist_issue.py._''"
  by (simp add: footer_def ex_script_def parent_def path_name_def)

lemma ex_tree_plain:
  "\<forall>e \<in> set ex_tree. checklist_file (source_dir ex_script) e \<longrightarrow>
     plain_path (source_dir ex_script) e"
  by (simp add: ex_tree_def ex_source plain_path_def suffix_def)

lemma ex_spec:
  "spec_checklist ex_script ex_tree =
     ([header,
       ''### Index/Non-technical'' @ [CHR 0x0A],
       ''- [ ] https://docs.rapids.ai/deployment/nightly/'',
       [],
       ''### P0'' @ [CHR 0x0A],
       ''- [ ] https://docs.rapids.ai/deployment/nightly/cloud'',
       [],
       ''### P2'' @ [CHR 0x0A],
       ''- [ ] https://docs.rapids.ai/deployment/nightly/cloud/aws'',
       ''- [ ] https://docs.rapids.ai/deployment/nightly/cloud/gcp'',
       [],
       ''_Issue text generated by scripts/gen_release_checklist_issue.py._''], None)"
  by (simp add: spec_checklist_def ex_source ex_footer ex_tree_def List.map_filter_simps
      entry_failure_def checklist_file_def ends_with_def spec_priority_def spec_group_def
      spec_url_def nightly_url_def)

lemma dotted_gen:
  "gen_release_checklist_issue ex_script dotted_tree =
     ([header,
       ''### P2'' @ [CHR 0x0A],
       ''- [ ] https://docs.rapids.ai/deployment/nightly/index'',
       ''- [ ] https://docs.rapids.ai/deployment/nightly/v1'',
       [],
       ''_Issue text generated by scripts/gen_release_checklist_issue.py._''], None)"
  by (simp add: gen_release_checklist_issue_def ex_source ex_footer dotted_tree_def
      priority_lists_def file_info_of_def joinpath_def path_name_def parts_def parent_def
      relative_to_def suffix_def rel_string_def with_suffix_empty_def str_path_def
      append_page_def print_section_def nightly_url_def Let_def)

lemma dotted_spec:
  "spec_checklist ex_script dotted_tree =
     ([header,
       ''### P2'' @ [CHR 0x0A],
       ''- [ ] https://docs.rapids.ai/deployment/nightly/index.md/notes'',
       ''- [ ] https://docs.rapids.ai/deployment/nightly/v1.2'',
       [],
       ''_Issue text generated by scripts/gen_release_checklist_issue.py._''], None)"
  by (simp add: spec_checklist_def ex_source ex_footer dotted_tree_def List.map_filter_simps
      entry_failure_def checklist_file_def ends_with_def spec_priority_def spec_group_def
      spec_url_def nightly_url_def)

lemma bad_tree_plain:
  "\<forall>e \<in> set bad_tree. checklist_file (source_dir ex_script) e \<longrightarrow>
     plain_path (source_dir ex_script) e"
  by (simp add: bad_tree_def ex_source plain_path_def)

lemma bad_spec:
  "spec_checklist ex_script bad_tree =
     ([header],
      Some (ValueError (''Unknown review_priority '' @ [CHR 0x27] @ ''p3'' @ [CHR 0x27] @
                        '' for page /repo/source/b.md'')))"
  by (simp add: spec_checklist_def ex_source bad_tree_def List.map_filter_simps
      entry_failure_def checklist_file_def ends_with_def spec_priority_def
      unknown_priority_def str_path_def joinpath_def)

lemma unloadable_gen:
  "gen_release_checklist_issue ex_script unloadable_tree =
     ([header], Some (LoadError ''could not parse front matter''))"
  by (simp add: gen_release_checklist_issue_def ex_source unloadable_tree_def
      priority_lists_def file_info_of_def joinpath_def path_name_def parts_def
      relative_to_def suffix_def Let_def)

subsection \<open>The claim\<close>

text \<open>
  C5, as stated, gives a file named index.md the URL of its parent directory and every
  other file its own path without the suffix, and lists every page unless a review
  priority is unknown. The script tests whether any part of the path is
  \<^verbatim>\<open>index.md\<close>, and strips a suffix from whatever name the relative path ends
  with. So \<^verbatim>\<open>source/v1.2/index.md\<close> is listed as \<^verbatim>\<open>.../nightly/v1\<close>, where the
  claim has \<^verbatim>\<open>.../nightly/v1.2\<close>, and \<^verbatim>\<open>source/index.md/notes.md\<close>, a file in a
  directory named index.md, as \<^verbatim>\<open>.../nightly/index\<close>, where the claim has
  \<^verbatim>\<open>.../nightly/index.md/notes\<close>. And a page whose front matter does not load is
  not listed as p2: the exception of \<^verbatim>\<open>frontmatter.load\<close> ends the script, since only
  a KeyError is caught.
\<close>

theorem checklist_entry_counterexample:
  "gen_release_checklist_issue ex_script dotted_tree =
     ([header,
       ''### P2'' @ [CHR 0x0A],
       ''- [ ] https://docs.rapids.ai/deployment/nightly/index'',
       ''- [ ] https://docs.rapids.ai/deployment/nightly/v1'',
       [],
       ''_Issue text generated by scripts/gen_release_checklist_issue.py._''], None) \<and>
   spec_checklist ex_script dotted_tree =
     ([header,
       ''### P2'' @ [CHR 0x0A],
       ''- [ ] https://docs.rapids.ai/deployment/nightly/index.md/notes'',
       ''- [ ] https://docs.rapids.ai/deployment/nightly/v1.2'',
       [],
       ''_Issue text generated by scripts/gen_release_checklist_issue.py._''], None) \<and>
   gen_release_checklist_issue ex_script dotted_tree \<noteq> spec_checklist ex_script dotted_tree \<and>
   gen_release_checklist_issue ex_script unloadable_tree =
     ([header], Some (LoadError ''could not parse front matter''))"
  by (simp add: dotted_gen dotted_spec unloadable_gen)

text \<open>
  C5, amended: the claim as it stands, for every tree in which no directory on the path
  of a checklist file is named index.md and the directory that holds an index.md has no
  suffix of its own. There the script prints the header, then the groups
  Index/Non-technical, P0, P1, P2 in this order, an empty group left out, then the
  footer. A group holds one entry for each regular file below source/ with suffix .md
  or .ipynb that is in no \<^verbatim>\<open>_includes\<close> or \<^verbatim>\<open>.ipynb_checkpoints\<close> directory and has
  the group's review priority (the front matter's \<^verbatim>\<open>review_priority\<close>, p2 when it is
  absent and for every notebook); the entry is \<^verbatim>\<open>- [ ] \<close> and the URL,
  \<^verbatim>\<open>https://docs.rapids.ai/deployment/nightly/\<close> followed by the file's path below
  source/ without its suffix, by the directory for a file named index.md; the entries
  of a group stand in ascending order of the URLs. The first checklist file, in the
  order of the walk, whose review priority is none of index, p0, p1, p2 ends the script
  with a ValueError that names the priority and the page, as a front matter that does
  not load ends it with the loader's exception; only the header is printed then.
\<close>

theorem checklist_on_plain_paths:
  assumes "\<forall>e \<in> set tree. checklist_file (source_dir script_name) e \<longrightarrow>
             plain_path (source_dir script_name) e"
  shows "gen_release_checklist_issue script_name tree = spec_checklist script_name tree"
proof -
  have k: "map fst priority_lists = [''index'', ''p0'', ''p1'', ''p2'']"
    by (simp add: priority_lists_def)
  note w = walk_spec [OF source_dir_names assms k]
  show ?thesis
  proof (cases "List.map_filter (entry_failure (source_dir script_name)) tree")
    case Nil
    then show ?thesis
      unfolding gen_release_checklist_issue_def spec_checklist_def Let_def w
      by (simp add: priority_lists_def print_section_spec)
  next
    case (Cons err errs)
    then show ?thesis
      unfolding gen_release_checklist_issue_def spec_checklist_def Let_def w
      by simp
  qed
qed

theorem checklist_on_plain_paths_witness:
  "gen_release_checklist_issue ex_script ex_tree =
     ([header,
       ''### Index/Non-technical'' @ [CHR 0x0A],
       ''- [ ] https://docs.rapids.ai/deployment/nightly/'',
       [],
       ''### P0'' @ [CHR 0x0A],
       ''- [ ] https://docs.rapids.ai/deployment/nightly/cloud'',
       [],
       ''### P2'' @ [CHR 0x0A],
       ''- [ ] https://docs.rapids.ai/deployment/nightly/cloud/aws'',
       ''- [ ] https://docs.rapids.ai/deployment/nightly/cloud/gcp'',
       [],
       ''_Issue text generated by scripts/gen_release_checklist_issue.py._''], None) \<and>
   gen_release_checklist_issue ex_script bad_tree =
     ([header],
      Some (ValueError (''Unknown review_priority '' @ [CHR 0x27] @ ''p3'' @ [CHR 0x27] @
                        '' for page /repo/source/b.md'')))"
  using checklist_on_plain_paths [OF ex_tree_plain] checklist_on_plain_paths [OF bad_tree_plain]
  by (simp only: ex_spec bad_spec)

end
